theory Spec2Isabelle
  imports Main "HOL-Library.Sublist"
begin

section \<open>Python strings\<close>

text \<open>
  A Python \<open>str\<close> is modelled as a \<open>string\<close> whose characters are read as code points
  0 to 255. Case mapping is the ASCII one (the letters a to z); on other characters the
  model leaves the character as it is.
\<close>

definition upper_char :: "char \<Rightarrow> char" where
  "upper_char c =
     (case map_of (zip ''abcdefghijklmnopqrstuvwxyz'' ''ABCDEFGHIJKLMNOPQRSTUVWXYZ'') c of
        Some d \<Rightarrow> d
      | None \<Rightarrow> c)"

definition lower_char :: "char \<Rightarrow> char" where
  "lower_char c =
     (case map_of (zip ''ABCDEFGHIJKLMNOPQRSTUVWXYZ'' ''abcdefghijklmnopqrstuvwxyz'') c of
        Some d \<Rightarrow> d
      | None \<Rightarrow> c)"

definition upper :: "string \<Rightarrow> string" where
  "upper s = map upper_char s"

definition lower :: "string \<Rightarrow> string" where
  "lower s = map lower_char s"

text \<open>\<open>str.isspace\<close> on the code points 0 to 255: tab, line feed, vertical tab, form feed,
  carriage return, the separators 0x1c to 0x1f, space, 0x85 and 0xa0.\<close>

definition is_space :: "char \<Rightarrow> bool" where
  "is_space c = ((of_char c :: nat) \<in> {9, 10, 11, 12, 13, 28, 29, 30, 31, 32, 133, 160})"

definition strip :: "string \<Rightarrow> string" where
  "strip s = rev (dropWhile is_space (rev (dropWhile is_space s)))"

definition startswith :: "string \<Rightarrow> string \<Rightarrow> bool" where
  "startswith s p = prefix p s"

definition endswith :: "string \<Rightarrow> string \<Rightarrow> bool" where
  "endswith s p = prefix (rev p) (rev s)"

text \<open>\<open>s.split(c)\<close> for a one-character separator: never the empty list.\<close>

fun split_char :: "char \<Rightarrow> string \<Rightarrow> string list" where
  "split_char c [] = [[]]"
| "split_char c (x # xs) =
     (if x = c then [] # split_char c xs
      else (case split_char c xs of
              [] \<Rightarrow> [[x]]
            | y # ys \<Rightarrow> (x # y) # ys))"

text \<open>\<open>s.split(c, 1)\<close>: at most one split, at the first occurrence of the separator.\<close>

definition split_once :: "char \<Rightarrow> string \<Rightarrow> string list" where
  "split_once c s =
     (case dropWhile (\<lambda>x. x \<noteq> c) s of
        [] \<Rightarrow> [s]
      | _ # rest \<Rightarrow> [takeWhile (\<lambda>x. x \<noteq> c) s, rest])"

text \<open>\<open>s.replace(" ", "")\<close>.\<close>

definition remove_spaces :: "string \<Rightarrow> string" where
  "remove_spaces s = filter (\<lambda>c. c \<noteq> CHR '' '') s"

text \<open>\<open>s.split("/")[-1]\<close>, the base name of a model identifier.\<close>

definition last_segment :: "string \<Rightarrow> string" where
  "last_segment s = last (split_char CHR ''/'' s)"

text \<open>\<open>str(n)\<close> for an integer: decimal digits, a minus sign when negative.\<close>

definition digit_char :: "nat \<Rightarrow> char" where
  "digit_char n = ''0123456789'' ! n"

function str_nat :: "nat \<Rightarrow> string" where
  "str_nat n = (if n < 10 then [digit_char n] else str_nat (n div 10) @ [digit_char (n mod 10)])"
  by pat_completeness auto
termination
  by (relation "measure id") auto

declare str_nat.simps [simp del]

definition str_int :: "int \<Rightarrow> string" where
  "str_int i = (if i < 0 then CHR ''-'' # str_nat (nat (- i)) else str_nat (nat i))"

definition str_bool :: "bool \<Rightarrow> string" where
  "str_bool b = (if b then ''True'' else ''False'')"

text \<open>\<open>" ".join(xs)\<close>.\<close>

fun join_space :: "string list \<Rightarrow> string" where
  "join_space [] = []"
| "join_space [x] = x"
| "join_space (x # y # ys) = x @ '' '' @ join_space (y # ys)"

text \<open>The line boundaries of \<open>str.splitlines\<close> on the code points 0 to 255.\<close>

definition is_linebreak :: "char \<Rightarrow> bool" where
  "is_linebreak c = ((of_char c :: nat) \<in> {10, 11, 12, 13, 28, 29, 30, 133})"

text \<open>\<open>s.splitlines()\<close>: a carriage return followed by a line feed is one boundary, and
  no empty last line is produced after a final boundary.\<close>

fun splitlines_from :: "string \<Rightarrow> string \<Rightarrow> string list" where
  "splitlines_from cur [] = (if cur = [] then [] else [cur])"
| "splitlines_from cur (x # xs) =
     (if is_linebreak x then
        (case xs of
           y # ys \<Rightarrow>
             (if x = CHR 0x0D \<and> y = CHR 0x0A then cur # splitlines_from [] ys
              else cur # splitlines_from [] xs)
         | [] \<Rightarrow> [cur])
      else splitlines_from (cur @ [x]) xs)"

definition splitlines :: "string \<Rightarrow> string list" where
  "splitlines s = splitlines_from [] s"

section \<open>Paths and the file system\<close>

type_synonym path = string

text \<open>\<open>os.path.join(a, b)\<close> on POSIX.\<close>

definition path_join :: "path \<Rightarrow> path \<Rightarrow> path" where
  "path_join a b =
     (if startswith b ''/'' then b
      else if a = [] \<or> endswith a ''/'' then a @ b
      else a @ ''/'' @ b)"

text \<open>
  The file system is the list of the paths that exist, directories and files alike; it is
  the only persisted state of the program. Paths are compared as they are written: the
  model resolves no \<open>.\<close>, \<open>..\<close> or repeated separator. What a file holds is not part of
  the model.
\<close>

type_synonym filesystem = "path list"

definition path_exists :: "filesystem \<Rightarrow> path \<Rightarrow> bool" where
  "path_exists files p = (p \<in> set files)"

text \<open>A path is inside the tree rooted at \<open>d\<close> when it is \<open>d\<close> or lies below \<open>d\<close>.\<close>

definition inside :: "path \<Rightarrow> path \<Rightarrow> bool" where
  "inside d p = (p = d \<or> startswith p (d @ ''/''))"

text \<open>\<open>os.listdir(d)\<close>: the names of the entries directly below \<open>d\<close>, in the order of the
  model's list. Every path below \<open>d\<close> gives the entry it lies in, which is what follows
  \<open>d\<close> and its separator up to the next separator.\<close>

definition listdir :: "filesystem \<Rightarrow> path \<Rightarrow> string list" where
  "listdir files d =
     remdups (filter (\<lambda>n. n \<noteq> [])
        (map (\<lambda>p. takeWhile (\<lambda>c. c \<noteq> CHR ''/'') (drop (length d + 1) p))
           (filter (\<lambda>p. startswith p (d @ ''/'')) files)))"

text \<open>Creating one path: nothing changes when it exists.\<close>

definition add_path :: "path \<Rightarrow> filesystem \<Rightarrow> filesystem" where
  "add_path p files = (if path_exists files p then files else files @ [p])"

text \<open>The directories on the way to \<open>d\<close>, outermost first and \<open>d\<close> last: what stands
  before each separator of \<open>d\<close>, and \<open>d\<close> itself.\<close>

definition dir_chain :: "path \<Rightarrow> path list" where
  "dir_chain d =
     filter (\<lambda>q. q \<noteq> [])
       (map (\<lambda>n. take n d) (filter (\<lambda>n. d ! n = CHR ''/'') [0..<length d]))
     @ [d]"

text \<open>\<open>os.makedirs(d, exist_ok=True)\<close>: the directory and every missing parent.\<close>

definition makedirs :: "path \<Rightarrow> filesystem \<Rightarrow> filesystem" where
  "makedirs d files = foldl (\<lambda>fsys q. add_path q fsys) files (dir_chain d)"

text \<open>A successful \<open>shutil.rmtree(d)\<close> removes the tree rooted at \<open>d\<close> and nothing else.\<close>

definition remove_tree :: "path \<Rightarrow> filesystem \<Rightarrow> filesystem" where
  "remove_tree d files = filter (\<lambda>p. \<not> inside d p) files"

section \<open>The world outside the program\<close>

text \<open>
  A child process as \<open>run_command\<close> observes it. Each element of \<open>ticks\<close> is one turn of
  the reading loop: what \<open>readline()\<close> did, and, for the turns in which it returned the
  empty string, what \<open>poll()\<close> returned then (\<open>None\<close>: still running). \<open>readline()\<close> returns
  a string (\<open>Inr\<close>) or raises (\<open>Inl\<close>, the message): the pipe is read in text mode, and
  output that does not decode raises \<open>UnicodeDecodeError\<close>. \<open>remaining\<close> is what \<open>read()\<close> does
  after the loop, in the same way, and \<open>files_after\<close> is the file system the process
  leaves. A list of ticks with no exit and no exception stands for a process that is never
  seen to exit.
\<close>

record process =
  ticks :: "((string + string) \<times> int option) list"
  remaining :: "string + string"
  files_after :: filesystem

text \<open>A Python \<open>float\<close> is named by its \<open>repr\<close>, which is also what an f-string prints.\<close>

datatype pyfloat = Float string

fun float_str :: "pyfloat \<Rightarrow> string" where
  "float_str (Float r) = r"

text \<open>
  Everything the program calls and does not define: the interpreter, the registry client,
  the quantization libraries, the operating system. An exception of a collaborator is its
  message (\<open>Inl\<close>, or \<open>Some\<close> where nothing else is returned): every handler of the
  program is \<open>except Exception as e\<close> and only prints \<open>e\<close>. A failing \<open>shutil.rmtree\<close>
  gives its message and tells which paths of the tree it had removed before it failed;
  \<open>listdir_error\<close> tells whether \<open>os.listdir\<close> raises. \<open>spawn\<close> is
  \<open>subprocess.Popen(command, shell=True, ...)\<close>: it raises (\<open>Inl\<close>), as it does for a
  command that holds a NUL character or when no process can be created, or it starts the
  process (\<open>Inr\<close>).
\<close>

record env =
  sys_executable :: string
  int_of :: "string \<Rightarrow> string + int"
  float_of :: "string \<Rightarrow> string + pyfloat"
  spawn :: "string \<Rightarrow> filesystem \<Rightarrow> string + process"
  list_repo_files :: "string \<Rightarrow> string \<Rightarrow> string + string list"
  snapshot_download :: "string \<Rightarrow> string \<Rightarrow> path \<Rightarrow> filesystem \<Rightarrow> (string + string) \<times> filesystem"
  import_error :: "string \<Rightarrow> string option"
  lib_call :: "string \<Rightarrow> string list \<Rightarrow> filesystem \<Rightarrow> (string + string) \<times> filesystem"
  card_error :: "string \<Rightarrow> string \<Rightarrow> path \<Rightarrow> filesystem \<Rightarrow> string option"
  create_repo_error :: "string \<Rightarrow> string \<Rightarrow> string option"
  upload_folder_error :: "path \<Rightarrow> string \<Rightarrow> string \<Rightarrow> filesystem \<Rightarrow> string option"
  rmtree_error :: "path \<Rightarrow> filesystem \<Rightarrow> (string \<times> (path \<Rightarrow> bool)) option"
  listdir_error :: "path \<Rightarrow> filesystem \<Rightarrow> string option"

text \<open>The calls that leave the program, in the order they are made.\<close>

datatype call =
    Exec string
  | Download string path
  | CreateRepo string
  | UploadFolder path string
  | Rmtree path

record world =
  files :: filesystem
  calls :: "call list"

section \<open>Generators\<close>

text \<open>
  A Python generator is run to its end: the items it yields in order, how it ended, and
  the world it leaves. It ends by returning, by raising an exception (its message), or
  not at all.
\<close>

datatype 'a outcome = Return 'a | Raise string | Hang

type_synonym 'a gen = "world \<Rightarrow> string list \<times> 'a outcome \<times> world"

definition g_return :: "'a \<Rightarrow> 'a gen" where
  "g_return a w = ([], Return a, w)"

definition g_yield :: "string \<Rightarrow> unit gen" where
  "g_yield l w = ([l], Return (), w)"

definition g_raise :: "string \<Rightarrow> 'a gen" where
  "g_raise e w = ([], Raise e, w)"

definition g_bind :: "'a gen \<Rightarrow> ('a \<Rightarrow> 'b gen) \<Rightarrow> 'b gen" where
  "g_bind m k w =
     (case m w of
        (ls, Return a, w1) \<Rightarrow> (case k a w1 of (ls2, r, w2) \<Rightarrow> (ls @ ls2, r, w2))
      | (ls, Raise e, w1) \<Rightarrow> (ls, Raise e, w1)
      | (ls, Hang, w1) \<Rightarrow> (ls, Hang, w1))"

definition g_then :: "unit gen \<Rightarrow> 'b gen \<Rightarrow> 'b gen" where
  "g_then m k = g_bind m (\<lambda>_. k)"

text \<open>A block of statements.\<close>

fun g_seq :: "unit gen list \<Rightarrow> unit gen" where
  "g_seq [] = g_return ()"
| "g_seq (m # ms) = g_then m (g_seq ms)"

text \<open>\<open>for x in xs: body\<close>.\<close>

fun g_for :: "'a list \<Rightarrow> ('a \<Rightarrow> unit gen) \<Rightarrow> unit gen" where
  "g_for [] body = g_return ()"
| "g_for (x # xs) body = g_then (body x) (g_for xs body)"

text \<open>\<open>try: m except Exception as e: handler e\<close>.\<close>

definition g_try :: "'a gen \<Rightarrow> (string \<Rightarrow> 'a gen) \<Rightarrow> 'a gen" where
  "g_try m handler w =
     (case m w of
        (ls, Raise e, w1) \<Rightarrow> (case handler e w1 of (ls2, r, w2) \<Rightarrow> (ls @ ls2, r, w2))
      | (ls, r, w1) \<Rightarrow> (ls, r, w1))"

text \<open>\<open>os.path.exists(p)\<close>, \<open>os.makedirs(p, exist_ok=True)\<close> and the log of a call.\<close>

definition os_path_exists :: "path \<Rightarrow> bool gen" where
  "os_path_exists p w = ([], Return (path_exists (files w) p), w)"

definition os_makedirs :: "path \<Rightarrow> unit gen" where
  "os_makedirs p w = ([], Return (), w\<lparr>files := makedirs p (files w)\<rparr>)"

definition record_call :: "call \<Rightarrow> unit gen" where
  "record_call c w = ([], Return (), w\<lparr>calls := calls w @ [c]\<rparr>)"

definition yielded :: "string list \<times> 'a outcome \<times> world \<Rightarrow> string list" where
  "yielded r = fst r"

definition outcome_of :: "string list \<times> 'a outcome \<times> world \<Rightarrow> 'a outcome" where
  "outcome_of r = fst (snd r)"

definition world_of :: "string list \<times> 'a outcome \<times> world \<Rightarrow> world" where
  "world_of r = snd (snd r)"

section \<open>Process Runner\<close>

text \<open>
  The loop of \<open>run_command\<close>:
  \<^verbatim>\<open>while True: line = readline(); if line: yield line; elif poll() is not None: break\<close>.
  The result is the lines yielded and how the loop ended: at the \<open>break\<close>, with the exit
  code polled there; with an exception of \<open>readline\<close>; or never.
\<close>

datatype loop_end = Exited int | Failed string | Never

fun read_loop :: "((string + string) \<times> int option) list \<Rightarrow> string list \<times> loop_end" where
  "read_loop [] = ([], Never)"
| "read_loop ((Inl err, polled) # ts) = ([], Failed err)"
| "read_loop ((Inr line, polled) # ts) =
     (if line \<noteq> [] then (case read_loop ts of (ls, fin) \<Rightarrow> (line # ls, fin))
      else (case polled of
              Some rc \<Rightarrow> ([], Exited rc)
            | None \<Rightarrow> read_loop ts))"

text \<open>\<open>run_command\<close> has no handler: an exception of \<open>Popen\<close>, \<open>readline\<close> or \<open>read\<close>
  leaves the generator.\<close>

definition run_command :: "env \<Rightarrow> string \<Rightarrow> unit gen" where
  "run_command e command =
     g_then (g_yield (''[DEBUG] Executing command: '' @ command @ ''\<newline>''))
       (g_then (record_call (Exec command))
         (\<lambda>w. case spawn e command (files w) of
            Inl err \<Rightarrow> ([], Raise err, w)
          | Inr p \<Rightarrow>
             (case read_loop (ticks p) of
                (ls, Never) \<Rightarrow> (ls, Hang, w)
              | (ls, Failed err) \<Rightarrow> (ls, Raise err, w)
              | (ls, Exited rc) \<Rightarrow>
                  (case remaining p of
                     Inl err \<Rightarrow> (ls, Raise err, w\<lparr>files := files_after p\<rparr>)
                   | Inr rest \<Rightarrow>
                       (ls @ (if rest \<noteq> [] then [rest] else [])
                           @ (if rc \<noteq> 0
                              then [''[ERROR] Command returned non-zero exit code: '' @ str_int rc @ ''\<newline>'']
                              else []),
                        Return (),
                        w\<lparr>files := files_after p\<rparr>)))))"

section \<open>Publisher\<close>

definition format_quant_type :: "string \<Rightarrow> string" where
  "format_quant_type qtype =
     (if startswith (lower qtype) ''i1-'' then
        (let parts = split_once CHR ''-'' qtype in
         if length parts = 2 then ''i1-'' @ upper (parts ! 1)
         else lower qtype)
      else upper qtype)"

text \<open>The destination of \<open>upload_quant\<close>: \<^verbatim>\<open>f"{username}/{base_model_name}-{format_quant_type(quantization_type)}"\<close>.\<close>

definition repo_id_of :: "string \<Rightarrow> string \<Rightarrow> string \<Rightarrow> string" where
  "repo_id_of username base_model_name quantization_type =
     username @ ''/'' @ base_model_name @ ''-'' @ format_quant_type quantization_type"

text \<open>
  \<open>upload_quant\<close> returns its log as one string. The first \<open>try\<close> block generates the model
  card and writes it to \<open>README.md\<close> in the folder; the second creates the destination and
  uploads the folder. Neither lets an exception out.
\<close>

definition write_model_card :: "env \<Rightarrow> string \<Rightarrow> string \<Rightarrow> path \<Rightarrow> string \<Rightarrow> string gen" where
  "write_model_card e model_id quantization_type save_folder repo_id w =
     (let card_path = path_join save_folder ''README.md'' in
      case card_error e model_id quantization_type save_folder (files w) of
        Some err \<Rightarrow>
          ([], Return (''[ERROR] Error creating custom model card: '' @ err @ ''\<newline>''), w)
      | None \<Rightarrow>
          ([], Return (''[INFO] Created custom model card for '' @ repo_id @ '' at '' @ card_path @ ''\<newline>''),
           w\<lparr>files := add_path card_path (files w)\<rparr>))"

definition push_folder :: "env \<Rightarrow> path \<Rightarrow> string \<Rightarrow> string \<Rightarrow> string gen" where
  "push_folder e save_folder hf_token repo_id w =
     (let w1 = w\<lparr>calls := calls w @ [CreateRepo repo_id]\<rparr> in
      case create_repo_error e repo_id hf_token of
        Some err \<Rightarrow> ([], Return (''[ERROR] Error uploading model: '' @ err @ ''\<newline>''), w1)
      | None \<Rightarrow>
          (let ready = ''[INFO] Repo '' @ repo_id @ '' is ready. Uploading folder '' @ save_folder @ ''...'' @ ''\<newline>'';
               w2 = w1\<lparr>calls := calls w1 @ [UploadFolder save_folder repo_id]\<rparr>
           in case upload_folder_error e save_folder repo_id hf_token (files w) of
                Some err \<Rightarrow> ([], Return (ready @ ''[ERROR] Error uploading model: '' @ err @ ''\<newline>''), w2)
              | None \<Rightarrow> ([], Return (ready @ ''[INFO] Uploaded quantized model to '' @ repo_id @ ''\<newline>''), w2)))"

definition upload_quant :: "env \<Rightarrow> string \<Rightarrow> string \<Rightarrow> string \<Rightarrow> path \<Rightarrow> string \<Rightarrow> string \<Rightarrow> string gen" where
  "upload_quant e model_id base_model_name quantization_type save_folder hf_token username =
     (let repo_id = repo_id_of username base_model_name quantization_type;
          log = ''[INFO] Preparing to upload quantized model to repo: '' @ repo_id @ ''\<newline>''
      in g_bind (write_model_card e model_id quantization_type save_folder repo_id) (\<lambda>card_log.
         g_bind (push_folder e save_folder hf_token repo_id) (\<lambda>push_log.
         g_return (log @ card_log @ push_log))))"

text \<open>\<open>for line in upload_quant(...): yield line\<close>: the callers iterate over the returned
  string, so every character of the log is one yielded item.\<close>

definition yield_upload :: "string gen \<Rightarrow> unit gen" where
  "yield_upload up = g_bind up (\<lambda>log. g_for log (\<lambda>c. g_yield [c]))"

section \<open>Commands\<close>

definition dq :: string where
  "dq = [CHR 0x22]"

definition sq :: string where
  "sq = [CHR 0x27]"

text \<open>
  \<open>build_llama_cmd(script_name, *args)\<close>. In the branch of a compiled executable the source
  puts no space between the quoted path and the first argument.
\<close>

definition build_llama_cmd :: "env \<Rightarrow> string \<Rightarrow> string list \<Rightarrow> string" where
  "build_llama_cmd e script_name args =
     (if endswith script_name ''.py'' then
        (let script_path = path_join ''llama_cpp'' script_name
         in dq @ sys_executable e @ dq @ '' '' @ dq @ script_path @ dq @ '' '' @ join_space args)
      else
        (let exec_path = path_join (path_join (path_join ''llama_cpp'' ''build'') ''bin'') script_name
         in dq @ exec_path @ dq @ join_space args))"

text \<open>
  The program that \<open>/bin/sh -c\<close> starts for a command line is named by its first word.
  For a command line whose only special characters are double quotes and spaces, a word
  ends at the first space outside double quotes, and the quotes themselves are dropped:
  quoted text and the text that follows it without a space are one word.
\<close>

fun shell_word :: "bool \<Rightarrow> string \<Rightarrow> string" where
  "shell_word quoted [] = []"
| "shell_word quoted (c # cs) =
     (if c = CHR 0x22 then shell_word (\<not> quoted) cs
      else if c = CHR '' '' \<and> \<not> quoted then []
      else c # shell_word quoted cs)"

definition shell_program :: "string \<Rightarrow> string" where
  "shell_program command = shell_word False command"

section \<open>Importance-Matrix Computer\<close>

text \<open>The tuning parameters of \<open>llama-imatrix\<close>, which the source passes one by one.\<close>

record imatrix_knobs =
  process_output :: bool
  verbosity :: int
  no_ppl :: bool
  chunk :: int
  output_frequency :: int
  save_frequency :: int
  in_files :: string
  ngl :: int

text \<open>The command line that \<open>compute_imatrix_file\<close> builds from \<open>cmd_parts\<close>.\<close>

definition imatrix_command ::
  "env \<Rightarrow> path \<Rightarrow> path \<Rightarrow> path \<Rightarrow> imatrix_knobs \<Rightarrow> string list \<Rightarrow> string" where
  "imatrix_command e model_file calibration_file imatrix_output k in_files_list =
     (let cmd_parts =
            [''llama-imatrix'',
             ''-m'', model_file,
             ''-f'', calibration_file,
             ''-o'', imatrix_output,
             ''--chunk'', str_int (chunk k),
             ''-ngl'', str_int (ngl k),
             ''--output-frequency'', str_int (output_frequency k),
             ''--save-frequency'', str_int (save_frequency k),
             ''--verbosity'', str_int (verbosity k)]
            @ (if process_output k then [''--process-output''] else [])
            @ (if no_ppl k then [''--no-ppl''] else [])
            @ concat (map (\<lambda>in_file. [''--in-file'', in_file]) in_files_list)
      in build_llama_cmd e (hd cmd_parts) (tl cmd_parts))"

definition compute_imatrix_file ::
  "env \<Rightarrow> path \<Rightarrow> path \<Rightarrow> path \<Rightarrow> imatrix_knobs \<Rightarrow> string list \<Rightarrow> unit gen" where
  "compute_imatrix_file e model_file calibration_file imatrix_output k in_files_list =
     (let cmd = imatrix_command e model_file calibration_file imatrix_output k in_files_list
      in g_seq
           [g_yield (''[INFO] Computing imatrix file for model '' @ model_file
                       @ '' using calibration data from '' @ calibration_file @ ''\<newline>''),
            g_yield (''[INFO] Running imatrix command:\<newline>  '' @ cmd @ ''\<newline>''),
            run_command e cmd])"

section \<open>Download and the completeness oracle\<close>

text \<open>The loop of \<open>is_model_fully_downloaded\<close> over the listed files.\<close>

fun all_files_present :: "filesystem \<Rightarrow> path \<Rightarrow> string list \<Rightarrow> bool" where
  "all_files_present fsys target_dir [] = True"
| "all_files_present fsys target_dir (file # rest) =
     (if \<not> path_exists fsys (path_join target_dir file) then False
      else all_files_present fsys target_dir rest)"

definition is_model_fully_downloaded :: "env \<Rightarrow> string \<Rightarrow> path \<Rightarrow> string \<Rightarrow> filesystem \<Rightarrow> bool" where
  "is_model_fully_downloaded e model_id target_dir hf_token fsys =
     (case list_repo_files e model_id hf_token of
        Inl err \<Rightarrow> False
      | Inr model_files \<Rightarrow> all_files_present fsys target_dir model_files)"

text \<open>\<open>patch_model_config\<close> rewrites what \<open>config.json\<close> holds and catches its own
  exceptions; it creates and removes no path, so the world of the model is unchanged.\<close>

definition patch_model_config :: "path \<Rightarrow> unit gen" where
  "patch_model_config model_dir = g_return ()"

definition hf_snapshot_download :: "env \<Rightarrow> string \<Rightarrow> string \<Rightarrow> path \<Rightarrow> string gen" where
  "hf_snapshot_download e model_id hf_token target_dir w =
     (let w1 = w\<lparr>calls := calls w @ [Download model_id target_dir]\<rparr> in
      case snapshot_download e model_id hf_token target_dir (files w) of
        (Inl err, fsys) \<Rightarrow> ([], Raise err, w1\<lparr>files := fsys\<rparr>)
      | (Inr model_path, fsys) \<Rightarrow> ([], Return model_path, w1\<lparr>files := fsys\<rparr>))"

definition fetch_model :: "env \<Rightarrow> string \<Rightarrow> string \<Rightarrow> path \<Rightarrow> unit gen" where
  "fetch_model e model_id hf_token target_dir =
     g_try
       (g_then (g_yield (''[INFO] Downloading model '' @ model_id @ ''...\<newline>''))
          (g_bind (hf_snapshot_download e model_id hf_token target_dir) (\<lambda>model_path.
             g_then (patch_model_config target_dir)
               (g_yield (''[INFO] Model downloaded and patched at: '' @ model_path @ ''\<newline>'')))))
       (\<lambda>err. g_yield (''[ERROR] Error downloading model: '' @ err @ ''\<newline>''))"

definition download_model :: "env \<Rightarrow> string \<Rightarrow> string \<Rightarrow> unit gen" where
  "download_model e model_id hf_token =
     (let model_name = last_segment model_id;
          target_dir = path_join ''models'' model_name
      in g_seq
           [g_yield ''=== Downloading Model ===\<newline>'',
            g_yield (''[INFO] Model ID: '' @ model_id @ ''\<newline>''),
            g_yield (''[INFO] Target directory: '' @ target_dir @ ''\<newline>''),
            (\<lambda>w.
               if path_exists (files w) target_dir then
                 (if is_model_fully_downloaded e model_id target_dir hf_token (files w) then
                    g_yield (''[INFO] Model '' @ model_id @ '' is already fully downloaded at ''
                               @ target_dir @ ''. Skipping download.\<newline>'') w
                  else
                    g_then (g_yield ''[WARN] Model directory exists but files appear incomplete. Re-downloading...\<newline>'')
                      (fetch_model e model_id hf_token target_dir) w)
               else
                 g_then (g_yield ''[INFO] Model directory does not exist. Starting download...\<newline>'')
                   (fetch_model e model_id hf_token target_dir) w)])"

section \<open>Method Executors\<close>

subsection \<open>GGUF\<close>

text \<open>The conversion to the base precision: run unless its output file exists.\<close>

definition gguf_convert :: "env \<Rightarrow> path \<Rightarrow> path \<Rightarrow> unit gen" where
  "gguf_convert e model_dir out_file w =
     (if \<not> path_exists (files w) out_file then
        (let cmd = build_llama_cmd e ''convert_hf_to_gguf.py''
                     [model_dir, ''--outtype'', ''bf16'', ''--outfile'', out_file]
         in g_then (g_yield (''[INFO] Running conversion command:\<newline>  '' @ cmd @ ''\<newline>''))
              (run_command e cmd) w)
      else
        g_yield (''[INFO] File '' @ out_file @ '' already exists. Skipping conversion.\<newline>'') w)"

text \<open>The additional input files: \<^verbatim>\<open>[s.strip() for s in x.split(",") if s.strip()] if x.strip() else []\<close>.\<close>

definition parse_in_files :: "string \<Rightarrow> string list" where
  "parse_in_files imatrix_in_files =
     (if strip imatrix_in_files \<noteq> [] then
        map strip (filter (\<lambda>s. strip s \<noteq> []) (split_char CHR '','' imatrix_in_files))
      else [])"

text \<open>The importance matrix: computed when its use is enabled and either a recomputation
  is asked for or the file does not exist.\<close>

definition gguf_imatrix ::
  "env \<Rightarrow> bool \<Rightarrow> bool \<Rightarrow> path \<Rightarrow> path \<Rightarrow> path \<Rightarrow> imatrix_knobs \<Rightarrow> unit gen" where
  "gguf_imatrix e use_imatrix recompute_imatrix imatrix_file calibration_file out_file k w =
     (if use_imatrix then
        (let in_files_list = parse_in_files (in_files k)
         in if recompute_imatrix \<or> \<not> path_exists (files w) imatrix_file then
              compute_imatrix_file e out_file calibration_file imatrix_file k in_files_list w
            else g_return () w)
      else g_return () w)"

text \<open>The output file and the command of one quant type.\<close>

definition gguf_type_file :: "bool \<Rightarrow> path \<Rightarrow> string \<Rightarrow> string \<Rightarrow> path" where
  "gguf_type_file use_imatrix save_folder base_model_name method_str =
     (if use_imatrix then path_join save_folder (lower base_model_name @ ''-i1-'' @ method_str @ ''.gguf'')
      else path_join save_folder (lower base_model_name @ ''-'' @ method_str @ ''.gguf''))"

definition gguf_type_cmd :: "env \<Rightarrow> bool \<Rightarrow> path \<Rightarrow> path \<Rightarrow> string \<Rightarrow> path \<Rightarrow> string \<Rightarrow> string" where
  "gguf_type_cmd e use_imatrix imatrix_file save_folder base_model_name out_file method_str =
     (let qtype = gguf_type_file use_imatrix save_folder base_model_name method_str in
      if use_imatrix then
        build_llama_cmd e ''llama-quantize'' [''--imatrix'', imatrix_file, out_file, qtype, method_str]
      else
        build_llama_cmd e ''llama-quantize'' [out_file, qtype, method_str])"

text \<open>The body of the loop over the quant types.\<close>

definition gguf_quantize_type ::
  "env \<Rightarrow> bool \<Rightarrow> path \<Rightarrow> path \<Rightarrow> string \<Rightarrow> path \<Rightarrow> string \<Rightarrow> unit gen" where
  "gguf_quantize_type e use_imatrix imatrix_file save_folder base_model_name out_file method =
     (let method_str = upper (strip method) in
      if startswith method_str ''IQ'' \<and> \<not> use_imatrix then
        g_yield (''[WARN] Skipping '' @ method_str @ '' quantization because imatrix is not enabled.\<newline>'')
      else
        (let cmd = gguf_type_cmd e use_imatrix imatrix_file save_folder base_model_name out_file method_str
         in g_then (g_yield (''[INFO] Quantizing with method '' @ sq @ method_str @ sq @ '':\<newline>  '' @ cmd @ ''\<newline>''))
              (run_command e cmd)))"

text \<open>The quant types of GGUF: \<^verbatim>\<open>additional_param.replace(" ", "").split(",")\<close> (line 489).\<close>

definition gguf_params :: "string \<Rightarrow> string list" where
  "gguf_params additional_param = split_char CHR '','' (remove_spaces additional_param)"

definition gguf_quantize_types ::
  "env \<Rightarrow> string \<Rightarrow> bool \<Rightarrow> path \<Rightarrow> path \<Rightarrow> string \<Rightarrow> path \<Rightarrow> unit gen" where
  "gguf_quantize_types e additional_param use_imatrix imatrix_file save_folder base_model_name out_file =
     (let quant_methods = gguf_params additional_param in
      g_for quant_methods
        (gguf_quantize_type e use_imatrix imatrix_file save_folder base_model_name out_file))"

definition quantize_gguf ::
  "env \<Rightarrow> string \<Rightarrow> string \<Rightarrow> string \<Rightarrow> string \<Rightarrow> bool \<Rightarrow> path \<Rightarrow> path \<Rightarrow> bool \<Rightarrow> imatrix_knobs \<Rightarrow> unit gen" where
  "quantize_gguf e model_id additional_param hf_token username use_imatrix imatrix_file
       calibration_file recompute_imatrix k =
     (let base_model_name = strip (last_segment model_id);
          model_dir = path_join ''models'' base_model_name;
          save_folder = path_join ''quantized_models'' (base_model_name @ ''-GGUF'');
          out_file = path_join save_folder (lower base_model_name @ ''.bf16.gguf'');
          repo_quant_type = (if use_imatrix then ''i1-GGUF'' else ''GGUF'')
      in g_seq
           [os_makedirs save_folder,
            g_yield (''=== GGUF Quantization for '' @ base_model_name @ '' ===\<newline>''),
            g_yield (''[INFO] Expected output file: '' @ out_file @ ''\<newline>''),
            gguf_convert e model_dir out_file,
            gguf_imatrix e use_imatrix recompute_imatrix imatrix_file calibration_file out_file k,
            gguf_quantize_types e additional_param use_imatrix imatrix_file save_folder
              base_model_name out_file,
            g_yield ''[INFO] Uploading GGUF quantized model...\<newline>'',
            yield_upload (upload_quant e model_id base_model_name repo_quant_type save_folder
              hf_token username)])"

subsection \<open>Parsing and library calls\<close>

text \<open>\<open>int(s)\<close> and \<open>float(s)\<close>: the value, or the \<open>ValueError\<close> raised.\<close>

definition py_int :: "env \<Rightarrow> string \<Rightarrow> int gen" where
  "py_int e s = (case int_of e s of Inl err \<Rightarrow> g_raise err | Inr n \<Rightarrow> g_return n)"

definition py_float :: "env \<Rightarrow> string \<Rightarrow> pyfloat gen" where
  "py_float e s = (case float_of e s of Inl err \<Rightarrow> g_raise err | Inr x \<Rightarrow> g_return x)"

text \<open>An \<open>import\<close> statement: it raises \<open>ImportError\<close> when the package is absent.\<close>

definition py_import :: "env \<Rightarrow> string \<Rightarrow> unit gen" where
  "py_import e name = (case import_error e name of Some err \<Rightarrow> g_raise err | None \<Rightarrow> g_return ())"

text \<open>A call into a quantization library: it may raise, it may change the file system,
  and what it returns is known to the model only as the text the program prints of it.\<close>

definition g_lib :: "env \<Rightarrow> string \<Rightarrow> string list \<Rightarrow> string gen" where
  "g_lib e name args w =
     (case lib_call e name args (files w) of
        (Inl err, fsys) \<Rightarrow> ([], Raise err, w\<lparr>files := fsys\<rparr>)
      | (Inr v, fsys) \<Rightarrow> ([], Return v, w\<lparr>files := fsys\<rparr>))"

definition g_lib_unit :: "env \<Rightarrow> string \<Rightarrow> string list \<Rightarrow> unit gen" where
  "g_lib_unit e name args = g_bind (g_lib e name args) (\<lambda>_. g_return ())"

subsection \<open>GPTQ\<close>

text \<open>The parameters of GPTQ (lines 520 to 531 of the source).\<close>

definition gptq_params :: "env \<Rightarrow> string \<Rightarrow> (int \<times> int \<times> pyfloat) gen" where
  "gptq_params e additional_param =
     (let defaults = (4, 128, Float ''0.1'') in
      if strip additional_param \<noteq> [] then
        (let parts = map strip (split_char CHR '','' additional_param) in
         if length parts \<ge> 3 then
           g_bind (py_int e (parts ! 0)) (\<lambda>bits.
           g_bind (py_int e (parts ! 1)) (\<lambda>group_size.
           g_bind (py_float e (parts ! 2)) (\<lambda>damp_percent.
           g_return (bits, group_size, damp_percent))))
         else
           g_then (g_yield ''[WARN] Insufficient GPTQ parameters provided. Using defaults: [4, 128, 0.1]\<newline>'')
             (g_return defaults))
      else g_return defaults)"

definition quantize_gptq :: "env \<Rightarrow> string \<Rightarrow> string \<Rightarrow> string \<Rightarrow> string \<Rightarrow> unit gen" where
  "quantize_gptq e model_id additional_param hf_token username =
     (case import_error e ''transformers'' of
        Some err \<Rightarrow>
          g_yield (''[ERROR] GPU-specific quantization (GPTQ) requires the '' @ sq @ ''transformers'' @ sq
                     @ '' package. Please use a GPU container or install the dependency.\<newline>'')
      | None \<Rightarrow>
          g_then (g_yield ''=== GPTQ Quantization ===\<newline>'')
         (g_bind (gptq_params e additional_param) (\<lambda>(bits, group_size, damp_percent).
            (let base_model_name = last_segment model_id;
                 local_dir = path_join ''models'' base_model_name;
                 save_folder = path_join ''quantized_models'' (base_model_name @ ''-GPTQ'')
             in
             g_then (g_yield (''[INFO] Using GPTQ parameters: bits='' @ str_int bits @ '', group_size=''
                        @ str_int group_size @ '', damp_percent='' @ float_str damp_percent @ ''\<newline>''))
            (g_then (g_yield ''[INFO] Loading tokenizer from local model directory...\<newline>'')
            (g_then (g_lib_unit e ''AutoTokenizer.from_pretrained'' [local_dir])
            (g_then (g_yield ''[INFO] Loading patched configuration from local model directory...\<newline>'')
            (g_then (patch_model_config local_dir)
            (g_bind (g_lib e ''AutoConfig.from_pretrained'' [local_dir]) (\<lambda>rope_scaling.
             g_then (g_yield (''[DEBUG] Patched config rope_scaling: '' @ rope_scaling @ ''\<newline>''))
            (g_then (g_yield ''[INFO] Initializing GPTQ configuration...\<newline>'')
            (g_then (g_lib_unit e ''GPTQConfig'' [str_int bits, float_str damp_percent, rope_scaling])
            (g_then (g_yield ''[INFO] Loading model with integrated GPTQ configuration...\<newline>'')
            (g_bind (g_lib e ''AutoModelForCausalLM.from_pretrained'' [local_dir]) (\<lambda>loaded_rope_scaling.
             g_seq
               [g_yield (''[DEBUG] Loaded model config rope_scaling: '' @ loaded_rope_scaling @ ''\<newline>''),
                g_yield (''[DEBUG] After override, model config rope_scaling: '' @ rope_scaling @ ''\<newline>''),
                g_yield (''[INFO] Saving quantized model to '' @ save_folder @ ''...\<newline>''),
                g_lib_unit e ''model.save_pretrained'' [save_folder],
                g_lib_unit e ''tokenizer.save_pretrained'' [save_folder],
                g_yield ''[INFO] GPTQ quantization completed.\<newline>'',
                yield_upload (upload_quant e model_id base_model_name ''GPTQ'' save_folder
                  hf_token username)])))))))))))))))"

subsection \<open>ExLlamaV2\<close>

text \<open>The parameter of ExLlamaV2:
  \<^verbatim>\<open>float(additional_param) if additional_param.strip() else 4.5\<close> (line 575).\<close>

definition exl2_params :: "env \<Rightarrow> string \<Rightarrow> pyfloat gen" where
  "exl2_params e additional_param =
     (if strip additional_param \<noteq> [] then py_float e additional_param
      else g_return (Float ''4.5''))"

definition quantize_exllamav2 :: "env \<Rightarrow> string \<Rightarrow> string \<Rightarrow> string \<Rightarrow> string \<Rightarrow> unit gen" where
  "quantize_exllamav2 e model_id additional_param hf_token username =
     g_try
       (g_then (g_yield ''=== ExLlamaV2 Quantization ===\<newline>'')
       (g_bind (exl2_params e additional_param) (\<lambda>bpw.
          (let base_model_name = last_segment model_id;
               model_dir = path_join ''models'' base_model_name;
               save_folder = path_join ''quantized_models'' (base_model_name @ ''-EXL2'');
               cmd = dq @ sys_executable e @ dq @ '' '' @ dq @ ''/app/exllamav2/convert.py'' @ dq
                     @ '' -i '' @ model_dir @ '' -o '' @ save_folder @ '' -b '' @ float_str bpw
           in g_seq
                [g_yield (''[INFO] Running ExLlamaV2 command:\<newline>  '' @ cmd @ ''\<newline>''),
                 run_command e cmd,
                 g_yield ''[INFO] ExLlamaV2 quantization completed.\<newline>'',
                 yield_upload (upload_quant e model_id base_model_name ''exl2'' save_folder
                   hf_token username)]))))
       (\<lambda>err. g_yield (''[ERROR] Error during ExLlamaV2 quantization: '' @ err @ ''\<newline>''))"

subsection \<open>AWQ\<close>

text \<open>The parameters of AWQ (lines 592 to 604 of the source).\<close>

definition awq_params :: "env \<Rightarrow> string \<Rightarrow> (int \<times> int \<times> string \<times> bool) gen" where
  "awq_params e additional_param =
     (let defaults = (4, 128, ''GEMM'', True) in
      if strip additional_param \<noteq> [] then
        (let parts = map strip (split_char CHR '','' additional_param) in
         if length parts \<ge> 4 then
           g_bind (py_int e (parts ! 0)) (\<lambda>bits.
           g_bind (py_int e (parts ! 1)) (\<lambda>group_size.
           g_return (bits, group_size, parts ! 2, lower (parts ! 3) \<in> set [''true'', ''1'', ''yes''])))
         else
           g_then (g_yield (''[WARN] Insufficient AWQ parameters provided. Using defaults: [4, 128, ''
                      @ sq @ ''GEMM'' @ sq @ '', True]\<newline>''))
             (g_return defaults))
      else g_return defaults)"

definition quantize_awq :: "env \<Rightarrow> string \<Rightarrow> string \<Rightarrow> string \<Rightarrow> string \<Rightarrow> unit gen" where
  "quantize_awq e model_id additional_param hf_token username =
     g_try
       (g_then (g_yield ''=== AWQ Quantization ===\<newline>'')
       (g_bind (awq_params e additional_param) (\<lambda>(bits, group_size, version, zero_point).
          (let base_model_name = last_segment model_id;
               save_folder = path_join ''quantized_models'' (base_model_name @ ''-AWQ'');
               local_dir = path_join ''models'' base_model_name
           in
           g_then (g_yield (''[INFO] Using AWQ parameters: bits='' @ str_int bits @ '', group_size=''
                      @ str_int group_size @ '', version='' @ version @ '', zero_point=''
                      @ str_bool zero_point @ ''\<newline>''))
          (g_then (py_import e ''awq'')
          (g_then (py_import e ''transformers'')
          (g_then (g_yield ''[INFO] Loading model and tokenizer for AWQ from local directory...\<newline>'')
          (g_then (patch_model_config local_dir)
          (g_bind (g_lib e ''isinstance(AutoConfig.from_pretrained.rope_scaling, dict)'' [local_dir]) (\<lambda>is_dict.
           g_seq
             [(if is_dict = ''True'' then
                 g_yield (''[DEBUG] Overridden config rope_scaling: {'' @ sq @ ''type'' @ sq @ '': ''
                            @ sq @ ''linear'' @ sq @ '', '' @ sq @ ''factor'' @ sq @ '': 1.0}\<newline>'')
               else g_return ()),
              g_lib_unit e ''AutoAWQForCausalLM.from_pretrained'' [local_dir],
              g_lib_unit e ''AutoTokenizer.from_pretrained'' [local_dir],
              g_yield ''[INFO] Quantizing model using AWQ...\<newline>'',
              g_lib_unit e ''model.quantize''
                [str_int bits, str_int group_size, version, str_bool zero_point],
              g_lib_unit e ''model.save_quantized'' [save_folder],
              g_lib_unit e ''tokenizer.save_pretrained'' [save_folder],
              g_yield (''[INFO] AWQ quantization completed. Saved to '' @ save_folder @ ''\<newline>''),
              yield_upload (upload_quant e model_id base_model_name ''AWQ'' save_folder
                hf_token username)]))))))))))
       (\<lambda>err. g_yield (''[ERROR] Error during AWQ quantization: '' @ err @ ''\<newline>''))"

subsection \<open>HQQ\<close>

text \<open>The parameters of HQQ (lines 642 to 652 of the source).\<close>

definition hqq_params :: "env \<Rightarrow> string \<Rightarrow> (int \<times> int) gen" where
  "hqq_params e additional_param =
     (let defaults = (2, 128) in
      if strip additional_param \<noteq> [] then
        (let parts = map strip (split_char CHR '','' additional_param) in
         if length parts \<ge> 2 then
           g_bind (py_int e (parts ! 0)) (\<lambda>bits.
           g_bind (py_int e (parts ! 1)) (\<lambda>group_size.
           g_return (bits, group_size)))
         else
           g_then (g_yield ''[WARN] Insufficient HQQ parameters provided. Using defaults: [2, 128]\<newline>'')
             (g_return defaults))
      else g_return defaults)"

definition quantize_hqq :: "env \<Rightarrow> string \<Rightarrow> string \<Rightarrow> string \<Rightarrow> string \<Rightarrow> unit gen" where
  "quantize_hqq e model_id additional_param hf_token username =
     g_try
       (g_then (g_yield ''=== HQQ Quantization ===\<newline>'')
       (g_bind (hqq_params e additional_param) (\<lambda>(bits, group_size).
          (let base_model_name = last_segment model_id;
               save_folder = path_join ''quantized_models'' (base_model_name @ ''-HQQ'')
           in g_seq
                [g_yield (''[INFO] Using HQQ parameters: bits='' @ str_int bits @ '', group_size=''
                            @ str_int group_size @ ''\<newline>''),
                 py_import e ''hqq.engine.hf'',
                 py_import e ''hqq.core.quantize'',
                 g_lib_unit e ''BaseQuantizeConfig'' [str_int bits, str_int group_size],
                 g_yield ''[INFO] Downloading HQQ model and tokenizer...\<newline>'',
                 g_lib_unit e ''HQQModelForCausalLM.from_pretrained'' [model_id],
                 g_lib_unit e ''AutoTokenizer.from_pretrained'' [model_id],
                 g_yield ''[INFO] Quantizing model using HQQ...\<newline>'',
                 g_lib_unit e ''model.quantize_model'' [str_int bits, str_int group_size],
                 g_yield (''[INFO] HQQ quantization completed. Saving to '' @ save_folder @ ''...\<newline>''),
                 g_lib_unit e ''model.save_quantized'' [save_folder],
                 g_lib_unit e ''tokenizer.save_pretrained'' [save_folder],
                 yield_upload (upload_quant e model_id base_model_name ''HQQ'' save_folder
                   hf_token username)]))))
       (\<lambda>err. g_yield (''[ERROR] Error during HQQ quantization: '' @ err @ ''\<newline>''))"

section \<open>Orchestrator\<close>

text \<open>
  The orchestrator is a generator of transcripts: it keeps the transcript in \<open>full_log\<close>
  and yields the whole of it each time. \<open>consume g full_log\<close> is the loop
  \<^verbatim>\<open>for line in g: full_log += line; yield full_log\<close>; it returns the transcript it ends
  with, and an exception of \<open>g\<close> leaves the loop as it is.
\<close>

fun accumulate :: "string \<Rightarrow> string list \<Rightarrow> string list" where
  "accumulate full_log [] = []"
| "accumulate full_log (line # rest) = (full_log @ line) # accumulate (full_log @ line) rest"

definition consume :: "unit gen \<Rightarrow> string \<Rightarrow> string gen" where
  "consume g full_log w =
     (case g w of
        (ls, r, w1) \<Rightarrow>
          (accumulate full_log ls,
           (case r of
              Return u \<Rightarrow> Return (full_log @ concat ls)
            | Raise err \<Rightarrow> Raise err
            | Hang \<Rightarrow> Hang),
           w1))"

text \<open>\<open>yield full_log\<close>.\<close>

definition yield_log :: "string \<Rightarrow> string gen" where
  "yield_log full_log w = ([full_log], Return full_log, w)"

text \<open>A \<open>for\<close> loop whose body updates \<open>full_log\<close>.\<close>

fun g_fold :: "'a list \<Rightarrow> ('a \<Rightarrow> string \<Rightarrow> string gen) \<Rightarrow> string \<Rightarrow> string gen" where
  "g_fold [] body full_log = g_return full_log"
| "g_fold (x # xs) body full_log = g_bind (body x full_log) (g_fold xs body)"

subsection \<open>Cleanup\<close>

text \<open>\<open>shutil.rmtree(p)\<close>: it removes the tree, or it raises after it has removed a part
  of the tree. It touches no path outside the tree.\<close>

definition shutil_rmtree :: "env \<Rightarrow> path \<Rightarrow> unit gen" where
  "shutil_rmtree e p w =
     (let w1 = w\<lparr>calls := calls w @ [Rmtree p]\<rparr> in
      case rmtree_error e p (files w) of
        Some (err, gone) \<Rightarrow>
          ([], Raise err, w1\<lparr>files := filter (\<lambda>q. \<not> (inside p q \<and> gone q)) (files w)\<rparr>)
      | None \<Rightarrow> ([], Return (), w1\<lparr>files := remove_tree p (files w)\<rparr>))"

text \<open>\<open>os.listdir(d)\<close> in the program: the listing, or the exception it raises.\<close>

definition os_listdir :: "env \<Rightarrow> path \<Rightarrow> string list gen" where
  "os_listdir e d w =
     (case listdir_error e d (files w) of
        Some err \<Rightarrow> ([], Raise err, w)
      | None \<Rightarrow> ([], Return (listdir (files w) d), w))"

definition delete_original_folder :: "env \<Rightarrow> string \<Rightarrow> string \<Rightarrow> string gen" where
  "delete_original_folder e base_model_name full_log w =
     (let original_path = path_join ''models'' base_model_name in
      if path_exists (files w) original_path then
        g_try
          (g_then (shutil_rmtree e original_path)
             (g_return (full_log @ ''[INFO] Deleted original model folder: '' @ original_path @ ''\<newline>'')))
          (\<lambda>err. g_return (full_log @ ''[ERROR] Could not delete original model folder ''
                     @ original_path @ '': '' @ err @ ''\<newline>''))
          w
      else g_return full_log w)"

definition delete_quantized_folder :: "env \<Rightarrow> string \<Rightarrow> path \<Rightarrow> string \<Rightarrow> string \<Rightarrow> string gen" where
  "delete_quantized_folder e base_model_name quant_dir folder full_log =
     (if startswith folder (base_model_name @ ''-'') then
        (let full_path = path_join quant_dir folder in
         g_try
           (g_then (shutil_rmtree e full_path)
              (g_return (full_log @ ''[INFO] Deleted quantized model folder: '' @ full_path @ ''\<newline>'')))
           (\<lambda>err. g_return (full_log @ ''[ERROR] Could not delete quantized folder ''
                      @ full_path @ '': '' @ err @ ''\<newline>'')))
      else g_return full_log)"

definition delete_quantized_folders :: "env \<Rightarrow> string \<Rightarrow> string \<Rightarrow> string gen" where
  "delete_quantized_folders e base_model_name full_log w =
     (let quant_dir = ''quantized_models'' in
      if path_exists (files w) quant_dir then
        g_bind (os_listdir e quant_dir) (\<lambda>folders.
          g_fold folders (delete_quantized_folder e base_model_name quant_dir) full_log) w
      else g_return full_log w)"

text \<open>Lines 752 to 771 of the source.\<close>

definition cleanup :: "env \<Rightarrow> string \<Rightarrow> bool \<Rightarrow> bool \<Rightarrow> string \<Rightarrow> string gen" where
  "cleanup e model_id del_original del_quantized full_log =
     (let base_model_name = last_segment model_id in
      g_bind (if del_original then delete_original_folder e base_model_name full_log
              else g_return full_log) (\<lambda>log1.
        if del_quantized then delete_quantized_folders e base_model_name log1
        else g_return log1))"

subsection \<open>The batch loop\<close>

text \<open>The parameters of \<open>quant_tavern_ui\<close>; the eight tuning parameters of the importance
  matrix are the record \<open>knobs\<close>.\<close>

record ui_args =
  model_ids :: string
  hf_token :: string
  username :: string
  gguf_sel :: bool
  gguf_param :: string
  gptq_sel :: bool
  gptq_param :: string
  exllamav2_sel :: bool
  exllamav2_param :: string
  awq_sel :: bool
  awq_param :: string
  hqq_sel :: bool
  hqq_param :: string
  enable_imatrix :: bool
  imatrix_file :: path
  calibration_file :: path
  recompute_imatrix :: bool
  knobs :: imatrix_knobs
  delete_original :: bool
  delete_quantized :: bool

definition selected_methods :: "ui_args \<Rightarrow> (string \<times> string) list" where
  "selected_methods a =
     (if gguf_sel a then [(''GGUF'', gguf_param a)] else [])
     @ (if gptq_sel a then [(''GPTQ'', gptq_param a)] else [])
     @ (if exllamav2_sel a then [(''ExLlamaV2'', exllamav2_param a)] else [])
     @ (if awq_sel a then [(''AWQ'', awq_param a)] else [])
     @ (if hqq_sel a then [(''HQQ'', hqq_param a)] else [])"

text \<open>The body of the loop over the selected methods (lines 720 to 749).\<close>

definition run_method :: "env \<Rightarrow> ui_args \<Rightarrow> string \<Rightarrow> string \<times> string \<Rightarrow> string \<Rightarrow> string gen" where
  "run_method e a model_id mp full_log =
     (case mp of (method, param) \<Rightarrow>
        g_bind (yield_log (full_log @ ''[INFO] Running '' @ method @ '' quantization...\<newline>'')) (\<lambda>log.
          if method = ''GGUF'' then
            consume (quantize_gguf e model_id (gguf_param a) (hf_token a) (username a)
                       (enable_imatrix a) (imatrix_file a) (calibration_file a)
                       (recompute_imatrix a) (knobs a)) log
          else if method = ''GPTQ'' then
            consume (quantize_gptq e model_id param (hf_token a) (username a)) log
          else if method = ''ExLlamaV2'' then
            consume (quantize_exllamav2 e model_id param (hf_token a) (username a)) log
          else if method = ''AWQ'' then
            consume (quantize_awq e model_id param (hf_token a) (username a)) log
          else if method = ''HQQ'' then
            consume (quantize_hqq e model_id param (hf_token a) (username a)) log
          else
            yield_log (log @ ''[ERROR] Unknown quantization method: '' @ method @ ''\<newline>'')))"

text \<open>The body of the loop over the models (lines 696 to 772).\<close>

definition process_model :: "env \<Rightarrow> ui_args \<Rightarrow> string \<Rightarrow> string \<Rightarrow> string gen" where
  "process_model e a model_id full_log =
     g_bind (consume (download_model e model_id (hf_token a))
               (full_log @ ''\<newline>=== Processing model: '' @ model_id @ '' ===\<newline>'')) (\<lambda>log.
       if selected_methods a = [] then
         yield_log (log @ ''[ERROR] No quantization method selected for model. Please select at least one method.\<newline>'')
       else
         g_bind (g_fold (selected_methods a) (run_method e a model_id) log) (\<lambda>log2.
         g_bind (cleanup e model_id (delete_original a) (delete_quantized a) log2) yield_log))"

definition model_list_of :: "string \<Rightarrow> string list" where
  "model_list_of ids = map strip (filter (\<lambda>m. strip m \<noteq> []) (splitlines ids))"

definition quant_tavern_ui :: "env \<Rightarrow> ui_args \<Rightarrow> string gen" where
  "quant_tavern_ui e a =
     (let full_log = ''=== Starting SpongeQuant Quantization Process ===\<newline>'';
          model_list = model_list_of (model_ids a)
      in g_bind (g_fold model_list (process_model e a) full_log) (\<lambda>log.
           yield_log (log @ ''\<newline>=== Quantization Process Completed ===\<newline>'')))"

subsection \<open>The invariant of the transcript\<close>

text \<open>
  A generator of transcripts grows from \<open>full_log\<close> when every transcript it yields
  extends \<open>full_log\<close>, each one extends the ones before it, and the transcript it returns
  extends all of them.
\<close>

definition grows_from :: "string \<Rightarrow> string gen \<Rightarrow> bool" where
  "grows_from full_log g =
     (\<forall>w. sorted_wrt prefix (full_log # yielded (g w))
        \<and> (\<forall>log'. outcome_of (g w) = Return log' \<longrightarrow>
              prefix (last (full_log # yielded (g w))) log'))"

section \<open>An example environment\<close>

text \<open>
  \<open>int(s)\<close> on the code points 0 to 255: surrounding white space is dropped, one sign is
  allowed, and the digits may be grouped by single underscores. The message of the
  \<open>ValueError\<close> quotes the string as it is.
\<close>

definition is_digit :: "char \<Rightarrow> bool" where
  "is_digit c = (c \<in> set ''0123456789'')"

definition digit_value :: "char \<Rightarrow> int" where
  "digit_value c = int (of_char c) - 48"

definition digits_value :: "string \<Rightarrow> int" where
  "digits_value ds = foldl (\<lambda>acc c. 10 * acc + digit_value c) 0 ds"

definition decimal_int :: "string \<Rightarrow> string + int" where
  "decimal_int s =
     (let t = strip s;
          negative = startswith t ''-'';
          body = (if startswith t ''-'' \<or> startswith t ''+'' then tl t else t);
          groups = split_char CHR ''_'' body
      in if list_all (\<lambda>g. g \<noteq> [] \<and> list_all is_digit g) groups
         then Inr ((if negative then - 1 else 1) * digits_value (concat groups))
         else Inl (''invalid literal for int() with base 10: '' @ sq @ s @ sq))"

text \<open>The example interpreter reads a float only when it is written as its own \<open>repr\<close>
  in plain decimal form, such as \<open>0.1\<close> or \<open>4.5\<close>.\<close>

definition plain_decimal :: "string \<Rightarrow> bool" where
  "plain_decimal t =
     (case split_char CHR ''.'' t of
        [a, b] \<Rightarrow>
          a \<noteq> [] \<and> b \<noteq> [] \<and> list_all is_digit a \<and> list_all is_digit b
          \<and> (a = ''0'' \<or> \<not> startswith a ''0'') \<and> (b = ''0'' \<or> \<not> endswith b ''0'')
      | _ \<Rightarrow> False)"

definition decimal_float :: "string \<Rightarrow> string + pyfloat" where
  "decimal_float s =
     (if plain_decimal (strip s) then Inr (Float (strip s))
      else Inl (''could not convert string to float: '' @ sq @ s @ sq))"

text \<open>
  An environment for the examples: every child process prints one line, leaves an
  unterminated rest, and exits with code 1 without writing a file; the registry lists two
  files for every model and downloads them; every library call succeeds.
\<close>

definition example_env :: env where
  "example_env =
     \<lparr>sys_executable = ''/usr/bin/python3'',
      int_of = decimal_int,
      float_of = decimal_float,
      spawn = (\<lambda>command fsys.
         Inr \<lparr>ticks = [(Inr ''started\<newline>'', None), (Inr [], None), (Inr [], Some 1)],
              remaining = Inr ''stopped'',
              files_after = fsys\<rparr>),
      list_repo_files = (\<lambda>model_id tok. Inr [''config.json'', ''model.safetensors'']),
      snapshot_download = (\<lambda>model_id tok target_dir fsys.
         (Inr target_dir,
          fsys @ [target_dir, path_join target_dir ''config.json'',
                  path_join target_dir ''model.safetensors''])),
      import_error = (\<lambda>name. None),
      lib_call = (\<lambda>name args fsys. (Inr ''None'', fsys)),
      card_error = (\<lambda>model_id quantization_type save_folder fsys. None),
      create_repo_error = (\<lambda>repo_id tok. None),
      upload_folder_error = (\<lambda>save_folder repo_id tok fsys. None),
      rmtree_error = (\<lambda>p fsys. None),
      listdir_error = (\<lambda>d fsys. None)\<rparr>"

definition empty_world :: world where
  "empty_world = \<lparr>files = [], calls = []\<rparr>"

text \<open>Every child process of the environment starts, its output can be read, and it is
  seen to exit.\<close>

definition runs_to_exit :: "string + process \<Rightarrow> bool" where
  "runs_to_exit r =
     (case r of
        Inl err \<Rightarrow> False
      | Inr p \<Rightarrow>
          (case snd (read_loop (ticks p)) of Exited rc \<Rightarrow> True | Failed err \<Rightarrow> False | Never \<Rightarrow> False)
          \<and> (case remaining p of Inl err \<Rightarrow> False | Inr rest \<Rightarrow> True))"

definition all_exit :: "env \<Rightarrow> bool" where
  "all_exit e = (\<forall>command fsys. runs_to_exit (spawn e command fsys))"

text \<open>An environment whose child processes print a byte that does not decode.\<close>

definition undecodable_env :: env where
  "undecodable_env =
     example_env\<lparr>spawn := (\<lambda>command fsys.
        Inr \<lparr>ticks = [(Inr ''started\<newline>'', None),
                      (Inl (''utf-8 codec can'' @ sq @ ''t decode byte 0xff in position 0: invalid start byte''), None)],
             remaining = Inr [],
             files_after = fsys\<rparr>)\<rparr>"

text \<open>An environment in which no process can be created.\<close>

definition no_process_env :: env where
  "no_process_env =
     example_env\<lparr>spawn := (\<lambda>command fsys. Inl ''[Errno 11] Resource temporarily unavailable'')\<rparr>"

text \<open>The values the user interface presets for the tuning parameters.\<close>

definition example_knobs :: imatrix_knobs where
  "example_knobs =
     \<lparr>process_output = False, verbosity = 1, no_ppl = False, chunk = 64,
      output_frequency = 10, save_frequency = 0, in_files = [], ngl = 80\<rparr>"

text \<open>A world in which the GGUF outputs of the example model are present.\<close>

definition quantized_world :: world where
  "quantized_world =
     \<lparr>files = [''models'', ''models/modelA'', ''quantized_models'',
               ''quantized_models/modelA-GGUF'',
               ''quantized_models/modelA-GGUF/modela.bf16.gguf'',
               ''quantized_models/modelA-GGUF/modela-Q4_K_M.gguf'',
               ''gguf/imatrix.dat''],
      calls = []\<rparr>"

text \<open>A world in which the model of the examples is fully present, and one in which a
  listed file is missing.\<close>

definition downloaded_world :: world where
  "downloaded_world =
     \<lparr>files = [''models'', ''models/modelA'', ''models/modelA/config.json'',
               ''models/modelA/model.safetensors''],
      calls = []\<rparr>"

definition partial_world :: world where
  "partial_world = \<lparr>files = [''models'', ''models/modelA'', ''models/modelA/config.json''], calls = []\<rparr>"




text \<open>The arguments of the example run: two models, GPTQ selected with a bits field that is
  not a number, and AWQ selected after it.\<close>

definition example_args :: ui_args where
  "example_args =
     \<lparr>model_ids = ''org/modelA\<newline>org/modelB'',
      hf_token = ''token'',
      username = ''alice'',
      gguf_sel = False,
      gguf_param = ''Q4_K_M'',
      gptq_sel = True,
      gptq_param = ''x,128,0.1'',
      exllamav2_sel = False,
      exllamav2_param = ''4.5'',
      awq_sel = True,
      awq_param = ''4, 128, GEMM, True'',
      hqq_sel = False,
      hqq_param = ''2, 128'',
      enable_imatrix = False,
      imatrix_file = ''gguf/imatrix.dat'',
      calibration_file = ''gguf/calibration_datav3.txt'',
      recompute_imatrix = False,
      knobs = example_knobs,
      delete_original = False,
      delete_quantized = False\<rparr>"

section \<open>Rules for generators\<close>

lemma yielded_tuple [simp]: "yielded (ls, r, w) = ls"
  by (simp add: yielded_def)

lemma outcome_of_tuple [simp]: "outcome_of (ls, r, w) = r"
  by (simp add: outcome_of_def)

lemma world_of_tuple [simp]: "world_of (ls, r, w) = w"
  by (simp add: world_of_def)

lemma gen_result_eq: "g = (yielded g, outcome_of g, world_of g)"
  by (cases g) simp

lemma g_yield_then:
  "g_then (g_yield l) k w = (l # yielded (k w), outcome_of (k w), world_of (k w))"
  by (cases "k w") (simp add: g_then_def g_bind_def g_yield_def)

lemma g_then_return_unit: "g_then m (g_return ()) = m"
proof
  fix w show "g_then m (g_return ()) w = m w"
    by (cases "m w"; cases "fst (snd (m w))") (auto simp: g_then_def g_bind_def g_return_def)
qed

lemma g_return_bind: "g_bind (g_return a) k = k a"
proof
  fix w show "g_bind (g_return a) k w = k a w"
    by (cases "k a w") (simp add: g_bind_def g_return_def)
qed

lemma g_return_then: "g_then (g_return ()) k = k"
  by (simp add: g_then_def g_return_bind)

lemma g_bind_proj:
  "g_bind m k w =
     (case outcome_of (m w) of
        Return a \<Rightarrow> (yielded (m w) @ yielded (k a (world_of (m w))),
                     outcome_of (k a (world_of (m w))), world_of (k a (world_of (m w))))
      | Raise err \<Rightarrow> (yielded (m w), Raise err, world_of (m w))
      | Hang \<Rightarrow> (yielded (m w), Hang, world_of (m w)))"
  by (cases "m w"; cases "fst (snd (m w))") (auto simp: g_bind_def split: prod.splits)

lemma g_then_proj:
  "g_then m k w =
     (case outcome_of (m w) of
        Return a \<Rightarrow> (yielded (m w) @ yielded (k (world_of (m w))),
                     outcome_of (k (world_of (m w))), world_of (k (world_of (m w))))
      | Raise err \<Rightarrow> (yielded (m w), Raise err, world_of (m w))
      | Hang \<Rightarrow> (yielded (m w), Hang, world_of (m w)))"
  by (simp add: g_then_def g_bind_proj)

lemma g_yield_proj:
  "yielded (g_yield l w) = [l]" "outcome_of (g_yield l w) = Return ()" "world_of (g_yield l w) = w"
  by (simp_all add: g_yield_def)

lemma g_return_proj:
  "yielded (g_return a w) = []" "outcome_of (g_return a w) = Return a" "world_of (g_return a w) = w"
  by (simp_all add: g_return_def)

lemma os_makedirs_proj:
  "yielded (os_makedirs p w) = []" "outcome_of (os_makedirs p w) = Return ()"
  "world_of (os_makedirs p w) = w\<lparr>files := makedirs p (files w)\<rparr>"
  by (simp_all add: os_makedirs_def)

lemma g_then_returns:
  "outcome_of (m w) = Return () \<Longrightarrow>
   g_then m k w = (yielded (m w) @ yielded (k (world_of (m w))),
                   outcome_of (k (world_of (m w))), world_of (k (world_of (m w))))"
  by (simp add: g_then_proj)

lemma g_bind_returns:
  "outcome_of (m w) = Return a \<Longrightarrow>
   g_bind m k w = (yielded (m w) @ yielded (k a (world_of (m w))),
                   outcome_of (k a (world_of (m w))), world_of (k a (world_of (m w))))"
  by (simp add: g_bind_proj)

lemmas gen_proj = g_yield_proj g_return_proj os_makedirs_proj g_yield_then g_then_return_unit
  g_then_returns g_bind_returns

lemma g_for_returns:
  "(\<And>x w. outcome_of (body x w) = Return ()) \<Longrightarrow> outcome_of (g_for xs body w) = Return ()"
  by (induction xs arbitrary: w) (simp_all add: gen_proj)

lemma g_for_calls:
  assumes "\<And>x w. outcome_of (body x w) = Return ()"
      and "\<And>x w. calls (world_of (body x w)) = calls w @ f x"
  shows "calls (world_of (g_for xs body w)) = calls w @ concat (map f xs)"
  using assms by (induction xs arbitrary: w) (simp_all add: gen_proj)

lemma g_for_yielded_member:
  assumes "\<And>x w. outcome_of (body x w) = Return ()"
      and "x \<in> set xs" and "\<And>w. l \<in> set (yielded (body x w))"
  shows "l \<in> set (yielded (g_for xs body w))"
  using assms by (induction xs arbitrary: w) (auto simp add: gen_proj)

lemma concat_map_if:
  "concat (map (\<lambda>x. if P x then [] else [f x]) xs) = map f (filter (\<lambda>x. \<not> P x) xs)"
  by (induction xs) auto

section \<open>Properties of the Publisher\<close>

lemma lower_char_dash: "lower_char c = CHR ''-'' \<longleftrightarrow> c = CHR ''-''"
  by (auto simp: lower_char_def split: option.splits if_splits)

lemma lower_char_one: "lower_char c = CHR ''1'' \<longleftrightarrow> c = CHR ''1''"
  by (auto simp: lower_char_def split: option.splits if_splits)

lemma lower_char_i: "lower_char c = CHR ''i'' \<Longrightarrow> c \<noteq> CHR ''-''"
  by (auto simp: lower_char_def split: option.splits if_splits)

lemma startswith_i1:
  assumes "startswith (lower q) ''i1-''"
  shows "\<exists>a r. q = a # CHR ''1'' # CHR ''-'' # r \<and> a \<noteq> CHR ''-''"
proof -
  from assms obtain a b c r where q: "q = a # b # c # r"
    and "lower_char a = CHR ''i''" "lower_char b = CHR ''1''" "lower_char c = CHR ''-''"
    by (cases q; cases "tl q"; cases "tl (tl q)") (auto simp: startswith_def lower_def)
  then show ?thesis using lower_char_dash lower_char_one lower_char_i by auto
qed

lemma format_quant_type_eq:
  "format_quant_type q =
     (if startswith (lower q) ''i1-'' then ''i1-'' @ upper (drop 3 q) else upper q)"
proof (cases "startswith (lower q) ''i1-''")
  case True
  then obtain a r where "q = a # CHR ''1'' # CHR ''-'' # r" "a \<noteq> CHR ''-''"
    using startswith_i1 by blast
  then show ?thesis using True by (simp add: format_quant_type_def split_once_def)
next
  case False
  then show ?thesis by (simp add: format_quant_type_def)
qed

lemma upload_quant_calls:
  "calls (world_of (upload_quant e model_id base qt folder tok user w)) =
     calls w @ CreateRepo (repo_id_of user base qt)
       # (case create_repo_error e (repo_id_of user base qt) tok of
            None \<Rightarrow> [UploadFolder folder (repo_id_of user base qt)]
          | Some err \<Rightarrow> [])"
  by (simp add: upload_quant_def world_of_def g_bind_def g_return_def write_model_card_def
      push_folder_def Let_def split: option.splits)

lemma upload_quant_returns:
  "\<exists>log. outcome_of (upload_quant e m base qt folder tok user w) = Return log"
  by (simp add: upload_quant_def Let_def g_bind_def g_return_def write_model_card_def push_folder_def
      outcome_of_def split: option.splits)

lemma g_for_chars_proj:
  "outcome_of (g_for cs (\<lambda>c. g_yield [c]) w) = Return ()"
  "world_of (g_for cs (\<lambda>c. g_yield [c]) w) = w"
  "yielded (g_for cs (\<lambda>c. g_yield [c]) w) = map (\<lambda>c. [c]) cs"
  by (induction cs) (simp_all add: gen_proj)

lemma yield_upload_returns:
  "outcome_of (yield_upload (upload_quant e m base qt folder tok user) w) = Return ()"
proof -
  obtain log where "outcome_of (upload_quant e m base qt folder tok user w) = Return log"
    using upload_quant_returns by blast
  then show ?thesis by (simp add: yield_upload_def g_bind_returns g_for_chars_proj)
qed

lemma yield_upload_world:
  "world_of (yield_upload (upload_quant e m base qt folder tok user) w)
     = world_of (upload_quant e m base qt folder tok user w)"
proof -
  obtain log where "outcome_of (upload_quant e m base qt folder tok user w) = Return log"
    using upload_quant_returns by blast
  then show ?thesis by (simp add: yield_upload_def g_bind_returns g_for_chars_proj)
qed

text \<open>
  C9. \<open>format_quant_type\<close> keeps the prefix \<open>i1-\<close>, which it recognises without regard to
  case, and upper-cases what follows it; every other token is upper-cased as a whole. The
  destination that \<open>upload_quant\<close> creates, and uploads to when the creation succeeds, is
  the user name, a slash, the base name, a dash and the formatted method name.
\<close>

theorem format_quant_type_destination:
  "format_quant_type q =
     (if startswith (lower q) ''i1-'' then ''i1-'' @ upper (drop 3 q) else upper q)
   \<and> calls (world_of (upload_quant e model_id base q folder tok user w)) =
       calls w @ CreateRepo (user @ ''/'' @ base @ ''-'' @ format_quant_type q)
         # (case create_repo_error e (user @ ''/'' @ base @ ''-'' @ format_quant_type q) tok of
              None \<Rightarrow> [UploadFolder folder (user @ ''/'' @ base @ ''-'' @ format_quant_type q)]
            | Some err \<Rightarrow> [])"
proof (rule conjI)
  show "format_quant_type q =
     (if startswith (lower q) ''i1-'' then ''i1-'' @ upper (drop 3 q) else upper q)"
    by (rule format_quant_type_eq)
  show "calls (world_of (upload_quant e model_id base q folder tok user w)) =
       calls w @ CreateRepo (user @ ''/'' @ base @ ''-'' @ format_quant_type q)
         # (case create_repo_error e (user @ ''/'' @ base @ ''-'' @ format_quant_type q) tok of
              None \<Rightarrow> [UploadFolder folder (user @ ''/'' @ base @ ''-'' @ format_quant_type q)]
            | Some err \<Rightarrow> [])"
    by (rule upload_quant_calls [unfolded repo_id_of_def])
qed

theorem format_quant_type_destination_witness:
  "format_quant_type ''I1-gguf'' = ''i1-GGUF''
   \<and> format_quant_type ''exl2'' = ''EXL2''
   \<and> calls (world_of (upload_quant example_env ''org/modelA'' ''modelA'' ''I1-gguf''
        ''quantized_models/modelA-GGUF'' ''token'' ''alice'' empty_world)) =
       [CreateRepo ''alice/modelA-i1-GGUF'',
        UploadFolder ''quantized_models/modelA-GGUF'' ''alice/modelA-i1-GGUF'']"
  using format_quant_type_destination [of "''I1-gguf''" example_env "''org/modelA''" "''modelA''"
      "''quantized_models/modelA-GGUF''" "''token''" "''alice''" empty_world]
    format_quant_type_destination [of "''exl2''" example_env "''org/modelA''" "''modelA''"
      "''quantized_models/modelA-EXL2''" "''token''" "''alice''" empty_world]
  by (simp add: startswith_def lower_def lower_char_def upper_def upper_char_def
      example_env_def empty_world_def)

section \<open>Properties of the Process Runner\<close>

lemma read_loop_exit:
  "\<forall>t\<in>set pre. fst t = [] \<longrightarrow> snd t = None \<Longrightarrow>
   read_loop (map (\<lambda>t. (Inr (fst t), snd t)) pre @ (Inr [], Some rc) # post)
     = (filter (\<lambda>l. l \<noteq> []) (map fst pre), Exited rc)"
  by (induction pre) (auto split: prod.splits)

lemma read_loop_failed:
  "\<forall>t\<in>set pre. fst t = [] \<longrightarrow> snd t = None \<Longrightarrow>
   read_loop (map (\<lambda>t. (Inr (fst t), snd t)) pre @ (Inl err, polled) # post)
     = (filter (\<lambda>l. l \<noteq> []) (map fst pre), Failed err)"
  by (induction pre) (auto split: prod.splits)

lemma run_command_exit:
  assumes "spawn e command (files w) = Inr p"
      and "ticks p = map (\<lambda>t. (Inr (fst t), snd t)) pre @ (Inr [], Some rc) # post"
      and "\<forall>t\<in>set pre. fst t = [] \<longrightarrow> snd t = None"
      and "remaining p = Inr rest"
  shows "run_command e command w =
      ((''[DEBUG] Executing command: '' @ command @ ''\<newline>'')
         # filter (\<lambda>l. l \<noteq> []) (map fst pre)
         @ (if rest = [] then [] else [rest])
         @ (if rc = 0 then []
            else [''[ERROR] Command returned non-zero exit code: '' @ str_int rc @ ''\<newline>'']),
       Return (),
       w\<lparr>calls := calls w @ [Exec command], files := files_after p\<rparr>)"
  using read_loop_exit [OF assms(3), of rc post] assms(1,2,4)
  by (simp add: run_command_def g_then_def g_bind_def g_yield_def record_call_def)

lemma run_command_not_started:
  assumes "spawn e command (files w) = Inl err"
  shows "run_command e command w =
      ([''[DEBUG] Executing command: '' @ command @ ''\<newline>''], Raise err,
       w\<lparr>calls := calls w @ [Exec command]\<rparr>)"
  using assms
  by (simp add: run_command_def g_then_def g_bind_def g_yield_def record_call_def)

lemma run_command_read_fails:
  assumes "spawn e command (files w) = Inr p"
      and "ticks p = map (\<lambda>t. (Inr (fst t), snd t)) pre @ (Inl err, polled) # post"
      and "\<forall>t\<in>set pre. fst t = [] \<longrightarrow> snd t = None"
  shows "run_command e command w =
      ((''[DEBUG] Executing command: '' @ command @ ''\<newline>'')
         # filter (\<lambda>l. l \<noteq> []) (map fst pre),
       Raise err,
       w\<lparr>calls := calls w @ [Exec command]\<rparr>)"
  using read_loop_failed [OF assms(3), of err polled post] assms(1,2)
  by (simp add: run_command_def g_then_def g_bind_def g_yield_def record_call_def)

lemma run_command_rest_fails:
  assumes "spawn e command (files w) = Inr p"
      and "ticks p = map (\<lambda>t. (Inr (fst t), snd t)) pre @ (Inr [], Some rc) # post"
      and "\<forall>t\<in>set pre. fst t = [] \<longrightarrow> snd t = None"
      and "remaining p = Inl err"
  shows "run_command e command w =
      ((''[DEBUG] Executing command: '' @ command @ ''\<newline>'')
         # filter (\<lambda>l. l \<noteq> []) (map fst pre),
       Raise err,
       w\<lparr>calls := calls w @ [Exec command], files := files_after p\<rparr>)"
  using read_loop_exit [OF assms(3), of rc post] assms(1,2,4)
  by (simp add: run_command_def g_then_def g_bind_def g_yield_def record_call_def)

lemma run_command_calls:
  "calls (world_of (run_command e c w)) = calls w @ [Exec c]"
  by (simp add: run_command_def g_then_def g_bind_def g_yield_def record_call_def
      split: prod.splits sum.splits loop_end.splits)

lemma run_command_returns:
  "runs_to_exit (spawn e c (files w)) \<Longrightarrow> outcome_of (run_command e c w) = Return ()"
  by (auto simp add: runs_to_exit_def run_command_def g_then_def g_bind_def g_yield_def
      record_call_def split: prod.splits sum.splits loop_end.splits)

lemma run_command_ok: "all_exit e \<Longrightarrow> outcome_of (run_command e c w) = Return ()"
  by (simp add: run_command_returns all_exit_def)

text \<open>
  C4, as the claim states it, fails: \<open>run_command\<close> has no handler, and when reading the
  output of the process raises (here \<open>UnicodeDecodeError\<close>, for output that does not decode)
  the exception leaves the runner after the lines read so far.
\<close>

theorem run_command_raises:
  "run_command undecodable_env ''ls'' empty_world =
     ([''[DEBUG] Executing command: ls\<newline>'', ''started\<newline>''],
      Raise (''utf-8 codec can'' @ sq @ ''t decode byte 0xff in position 0: invalid start byte''),
      \<lparr>files = [], calls = [Exec ''ls'']\<rparr>)"
  by (simp add: run_command_def g_then_def g_bind_def g_yield_def record_call_def
      undecodable_env_def example_env_def empty_world_def)

text \<open>
  C4, amended. When the process starts, every read of its output succeeds and it is seen
  to exit (the first turn of the loop in which \<open>readline\<close> returns nothing and \<open>poll\<close>
  returns an exit code \<open>rc\<close>), \<open>run_command\<close> yields, after the line that announces the
  command, the lines read in the order they were read, then the unterminated rest as one
  last item when there is one, and then a diagnostic line that reports the exit code if
  and only if the code is not zero; it returns normally whatever the exit code. When
  \<open>Popen\<close>, \<open>readline\<close> or \<open>read\<close> raises, \<open>run_command\<close> yields what it read before and the
  exception leaves it.
\<close>

theorem run_command_transcript:
  "(spawn e command (files w) = Inr p
      \<and> ticks p = map (\<lambda>t. (Inr (fst t), snd t)) pre @ (Inr [], Some rc) # post
      \<and> (\<forall>t\<in>set pre. fst t = [] \<longrightarrow> snd t = None)
      \<and> remaining p = Inr rest
    \<longrightarrow> run_command e command w =
      ((''[DEBUG] Executing command: '' @ command @ ''\<newline>'')
         # filter (\<lambda>l. l \<noteq> []) (map fst pre)
         @ (if rest = [] then [] else [rest])
         @ (if rc = 0 then []
            else [''[ERROR] Command returned non-zero exit code: '' @ str_int rc @ ''\<newline>'']),
       Return (),
       w\<lparr>calls := calls w @ [Exec command], files := files_after p\<rparr>))
   \<and> (spawn e command (files w) = Inl err
    \<longrightarrow> run_command e command w =
      ([''[DEBUG] Executing command: '' @ command @ ''\<newline>''], Raise err,
       w\<lparr>calls := calls w @ [Exec command]\<rparr>))
   \<and> (spawn e command (files w) = Inr p
      \<and> ticks p = map (\<lambda>t. (Inr (fst t), snd t)) pre @ (Inl err, polled) # post
      \<and> (\<forall>t\<in>set pre. fst t = [] \<longrightarrow> snd t = None)
    \<longrightarrow> run_command e command w =
      ((''[DEBUG] Executing command: '' @ command @ ''\<newline>'')
         # filter (\<lambda>l. l \<noteq> []) (map fst pre),
       Raise err,
       w\<lparr>calls := calls w @ [Exec command]\<rparr>))
   \<and> (spawn e command (files w) = Inr p
      \<and> ticks p = map (\<lambda>t. (Inr (fst t), snd t)) pre @ (Inr [], Some rc) # post
      \<and> (\<forall>t\<in>set pre. fst t = [] \<longrightarrow> snd t = None)
      \<and> remaining p = Inl err
    \<longrightarrow> run_command e command w =
      ((''[DEBUG] Executing command: '' @ command @ ''\<newline>'')
         # filter (\<lambda>l. l \<noteq> []) (map fst pre),
       Raise err,
       w\<lparr>calls := calls w @ [Exec command], files := files_after p\<rparr>))"
  using run_command_exit [of e command w p pre rc post rest]
    run_command_not_started [of e command w err]
    run_command_read_fails [of e command w p pre err polled post]
    run_command_rest_fails [of e command w p pre rc post err]
  by blast

theorem run_command_transcript_witness:
  "run_command example_env ''ls'' empty_world =
     ([''[DEBUG] Executing command: ls\<newline>'', ''started\<newline>'', ''stopped'',
       ''[ERROR] Command returned non-zero exit code: 1\<newline>''],
      Return (),
      \<lparr>files = [], calls = [Exec ''ls'']\<rparr>)
   \<and> run_command no_process_env ''ls'' empty_world =
     ([''[DEBUG] Executing command: ls\<newline>''],
      Raise ''[Errno 11] Resource temporarily unavailable'',
      \<lparr>files = [], calls = [Exec ''ls'']\<rparr>)
   \<and> run_command undecodable_env ''ls'' empty_world =
     ([''[DEBUG] Executing command: ls\<newline>'', ''started\<newline>''],
      Raise (''utf-8 codec can'' @ sq @ ''t decode byte 0xff in position 0: invalid start byte''),
      \<lparr>files = [], calls = [Exec ''ls'']\<rparr>)"
  using run_command_transcript [of example_env "''ls''" empty_world
      "\<lparr>ticks = [(Inr ''started\<newline>'', None), (Inr [], None), (Inr [], Some 1)],
        remaining = Inr ''stopped'', files_after = []\<rparr>"
      "[(''started\<newline>'', None), ([], None)]" 1 "[]" "''stopped''" "''x''" None]
    run_command_transcript [of no_process_env "''ls''" empty_world
      "\<lparr>ticks = [], remaining = Inr [], files_after = []\<rparr>" "[]" 0 "[]" "[]"
      "''[Errno 11] Resource temporarily unavailable''" None]
    run_command_transcript [of undecodable_env "''ls''" empty_world
      "\<lparr>ticks = [(Inr ''started\<newline>'', None),
                  (Inl (''utf-8 codec can'' @ sq @ ''t decode byte 0xff in position 0: invalid start byte''), None)],
        remaining = Inr [], files_after = []\<rparr>"
      "[(''started\<newline>'', None)]" 0 "[]" "[]"
      "''utf-8 codec can'' @ sq @ ''t decode byte 0xff in position 0: invalid start byte''" None]
  by (simp add: example_env_def no_process_env_def undecodable_env_def empty_world_def
      str_int_def str_nat.simps digit_char_def)

section \<open>Properties of the download step\<close>

lemma all_files_present_iff:
  "all_files_present fsys d fs = list_all (\<lambda>f. path_exists fsys (path_join d f)) fs"
  by (induction fs) auto

lemma is_model_fully_downloaded_iff:
  "is_model_fully_downloaded e m d tok fsys =
     (case list_repo_files e m tok of
        Inl err \<Rightarrow> False
      | Inr fs \<Rightarrow> list_all (\<lambda>f. path_exists fsys (path_join d f)) fs)"
  by (simp add: is_model_fully_downloaded_def all_files_present_iff split: sum.splits)

lemma fetch_model_calls:
  "calls (world_of (fetch_model e m tok d w)) = calls w @ [Download m d]"
  by (simp add: fetch_model_def g_try_def g_then_def g_bind_def g_yield_def
      hf_snapshot_download_def patch_model_config_def g_return_def world_of_def Let_def
      split: prod.splits sum.splits outcome.splits)

lemma download_model_world:
  "world_of (download_model e m tok w) =
     (if path_exists (files w) (path_join ''models'' (last_segment m))
         \<and> is_model_fully_downloaded e m (path_join ''models'' (last_segment m)) tok (files w)
      then w
      else world_of (fetch_model e m tok (path_join ''models'' (last_segment m)) w))"
  by (simp add: download_model_def Let_def g_yield_then g_then_return_unit)
     (simp add: g_yield_def)

text \<open>
  C5. \<open>download_model\<close> makes no download, and leaves the world as it is, exactly when the
  target directory \<open>models/<base name>\<close> exists, the remote file list could be queried and
  every listed file has its local file; in every other case it makes one download call.
  When the query of the remote file list fails the completeness oracle answers False.
  Since a skipped run leaves the world unchanged, a run against a fully present directory
  downloads nothing however often it is repeated.
\<close>

theorem download_skipped_iff_complete:
  "calls (world_of (download_model e m tok w)) =
     (if path_exists (files w) (path_join ''models'' (last_segment m))
         \<and> (case list_repo_files e m tok of
               Inl err \<Rightarrow> False
             | Inr fs \<Rightarrow>
                 list_all (\<lambda>f. path_exists (files w)
                   (path_join (path_join ''models'' (last_segment m)) f)) fs)
      then calls w
      else calls w @ [Download m (path_join ''models'' (last_segment m))])
   \<and> (path_exists (files w) (path_join ''models'' (last_segment m))
         \<and> is_model_fully_downloaded e m (path_join ''models'' (last_segment m)) tok (files w)
       \<longrightarrow> world_of (download_model e m tok w) = w
           \<and> world_of (download_model e m tok (world_of (download_model e m tok w))) = w)
   \<and> (list_repo_files e m tok = Inl err \<longrightarrow> \<not> is_model_fully_downloaded e m d tok fsys)"
proof (intro conjI)
  show "calls (world_of (download_model e m tok w)) =
     (if path_exists (files w) (path_join ''models'' (last_segment m))
         \<and> (case list_repo_files e m tok of
               Inl err \<Rightarrow> False
             | Inr fs \<Rightarrow>
                 list_all (\<lambda>f. path_exists (files w)
                   (path_join (path_join ''models'' (last_segment m)) f)) fs)
      then calls w
      else calls w @ [Download m (path_join ''models'' (last_segment m))])"
    unfolding is_model_fully_downloaded_iff [symmetric]
    by (simp add: download_model_world fetch_model_calls)
  show "path_exists (files w) (path_join ''models'' (last_segment m))
         \<and> is_model_fully_downloaded e m (path_join ''models'' (last_segment m)) tok (files w)
       \<longrightarrow> world_of (download_model e m tok w) = w
           \<and> world_of (download_model e m tok (world_of (download_model e m tok w))) = w"
    by (simp add: download_model_world)
  show "list_repo_files e m tok = Inl err \<longrightarrow> \<not> is_model_fully_downloaded e m d tok fsys"
    by (simp add: is_model_fully_downloaded_def)
qed

theorem download_skipped_iff_complete_witness:
  "calls (world_of (download_model example_env ''org/modelA'' ''token'' downloaded_world)) = []
   \<and> world_of (download_model example_env ''org/modelA'' ''token''
        (world_of (download_model example_env ''org/modelA'' ''token'' downloaded_world))) =
      downloaded_world
   \<and> calls (world_of (download_model example_env ''org/modelA'' ''token'' partial_world)) =
      [Download ''org/modelA'' ''models/modelA'']
   \<and> calls (world_of (download_model example_env ''org/modelA'' ''token'' empty_world)) =
      [Download ''org/modelA'' ''models/modelA'']
   \<and> \<not> is_model_fully_downloaded (example_env\<lparr>list_repo_files := \<lambda>model_id t. Inl ''offline''\<rparr>)
        ''org/modelA'' ''models/modelA'' ''token'' (files downloaded_world)"
  using download_skipped_iff_complete [of example_env "''org/modelA''" "''token''" downloaded_world
      "''offline''" "''models/modelA''" "files downloaded_world"]
    download_skipped_iff_complete [of example_env "''org/modelA''" "''token''" partial_world
      "''offline''" "''models/modelA''" "files downloaded_world"]
    download_skipped_iff_complete [of example_env "''org/modelA''" "''token''" empty_world
      "''offline''" "''models/modelA''" "files downloaded_world"]
    download_skipped_iff_complete [of "example_env\<lparr>list_repo_files := \<lambda>model_id t. Inl ''offline''\<rparr>"
      "''org/modelA''" "''token''" downloaded_world
      "''offline''" "''models/modelA''" "files downloaded_world"]
  by (simp add: example_env_def downloaded_world_def partial_world_def empty_world_def
      last_segment_def path_join_def startswith_def endswith_def path_exists_def
      is_model_fully_downloaded_def)

section \<open>Properties of the GGUF executor\<close>

lemma gguf_convert_returns:
  "all_exit e \<Longrightarrow> outcome_of (gguf_convert e d out w) = Return ()"
  by (simp add: gguf_convert_def Let_def gen_proj run_command_ok)

lemma gguf_convert_calls:
  "calls (world_of (gguf_convert e d out w)) =
     calls w @ (if path_exists (files w) out then []
                else [Exec (build_llama_cmd e ''convert_hf_to_gguf.py''
                        [d, ''--outtype'', ''bf16'', ''--outfile'', out])])"
  by (simp add: gguf_convert_def Let_def gen_proj run_command_calls)

lemma gguf_convert_skip:
  "path_exists (files w) out \<Longrightarrow> world_of (gguf_convert e d out w) = w"
  by (simp add: gguf_convert_def gen_proj)

lemma compute_imatrix_file_returns:
  "all_exit e \<Longrightarrow> outcome_of (compute_imatrix_file e mf cf out k ins w) = Return ()"
  by (simp add: compute_imatrix_file_def Let_def gen_proj run_command_ok)

lemma gguf_imatrix_returns:
  "all_exit e \<Longrightarrow> outcome_of (gguf_imatrix e use re imf cf out k w) = Return ()"
  by (simp add: gguf_imatrix_def Let_def gen_proj compute_imatrix_file_returns)

lemma gguf_imatrix_calls:
  "calls (world_of (gguf_imatrix e use re imf cf out k w)) =
     calls w @ (if use \<and> (re \<or> \<not> path_exists (files w) imf)
                then [Exec (imatrix_command e out cf imf k (parse_in_files (in_files k)))] else [])"
  by (simp add: gguf_imatrix_def Let_def gen_proj compute_imatrix_file_def run_command_calls)


lemma gguf_quantize_type_returns:
  "all_exit e \<Longrightarrow> outcome_of (gguf_quantize_type e use imf folder base out t w) = Return ()"
  by (simp add: gguf_quantize_type_def Let_def gen_proj run_command_ok)

lemma gguf_quantize_type_calls:
  "calls (world_of (gguf_quantize_type e use imf folder base out t w)) =
     calls w @ (if startswith (upper (strip t)) ''IQ'' \<and> \<not> use then []
                else [Exec (gguf_type_cmd e use imf folder base out (upper (strip t)))])"
  by (simp add: gguf_quantize_type_def Let_def gen_proj run_command_calls)

lemma gguf_quantize_types_returns:
  "all_exit e \<Longrightarrow> outcome_of (gguf_quantize_types e p use imf folder base out w) = Return ()"
  by (simp add: gguf_quantize_types_def gguf_params_def Let_def g_for_returns gguf_quantize_type_returns)

lemma gguf_quantize_types_calls:
  assumes "all_exit e"
  shows "calls (world_of (gguf_quantize_types e p use imf folder base out w)) =
     calls w @ map (\<lambda>t. Exec (gguf_type_cmd e use imf folder base out (upper (strip t))))
       (filter (\<lambda>t. \<not> (startswith (upper (strip t)) ''IQ'' \<and> \<not> use))
          (split_char CHR '','' (remove_spaces p)))"
  unfolding gguf_quantize_types_def gguf_params_def Let_def
  by (subst g_for_calls [where f = "\<lambda>t. if startswith (upper (strip t)) ''IQ'' \<and> \<not> use then []
                else [Exec (gguf_type_cmd e use imf folder base out (upper (strip t)))]"])
     (simp_all add: gguf_quantize_type_returns assms gguf_quantize_type_calls concat_map_if)

lemma gguf_quantize_types_warns:
  assumes "all_exit e" and "t \<in> set (split_char CHR '','' (remove_spaces p))"
    and "startswith (upper (strip t)) ''IQ''"
  shows "(''[WARN] Skipping '' @ upper (strip t) @ '' quantization because imatrix is not enabled.\<newline>'')
     \<in> set (yielded (gguf_quantize_types e p False imf folder base out w))"
  unfolding gguf_quantize_types_def gguf_params_def Let_def
proof (rule g_for_yielded_member [where x = t])
  show "outcome_of (gguf_quantize_type e False imf folder base out x w) = Return ()" for x w
    by (simp add: assms(1) gguf_quantize_type_returns)
  show "t \<in> set (split_char CHR '','' (remove_spaces p))" by (rule assms(2))
  show "(''[WARN] Skipping '' @ upper (strip t) @ '' quantization because imatrix is not enabled.\<newline>'')
     \<in> set (yielded (gguf_quantize_type e False imf folder base out t w))" for w
    using assms(3) by (simp add: gguf_quantize_type_def gen_proj)
qed

lemma quantize_gguf_returns:
  "all_exit e \<Longrightarrow> outcome_of (quantize_gguf e m p tok user use imf cf re k w) = Return ()"
  by (simp add: quantize_gguf_def Let_def gen_proj gguf_convert_returns gguf_imatrix_returns
      gguf_quantize_types_returns yield_upload_returns)

lemma quantize_gguf_calls:
  assumes "all_exit e"
  shows "calls (world_of (quantize_gguf e m p tok user use imf cf re k w)) =
    (let base = strip (last_segment m);
         folder = path_join ''quantized_models'' (base @ ''-GGUF'');
         out = path_join folder (lower base @ ''.bf16.gguf'');
         w1 = w\<lparr>files := makedirs folder (files w)\<rparr>;
         w2 = world_of (gguf_convert e (path_join ''models'' base) out w1);
         rid = repo_id_of user base (if use then ''i1-GGUF'' else ''GGUF'')
     in calls w
        @ (if path_exists (files w1) out then []
           else [Exec (build_llama_cmd e ''convert_hf_to_gguf.py''
                   [path_join ''models'' base, ''--outtype'', ''bf16'', ''--outfile'', out])])
        @ (if use \<and> (re \<or> \<not> path_exists (files w2) imf)
           then [Exec (imatrix_command e out cf imf k (parse_in_files (in_files k)))] else [])
        @ map (\<lambda>t. Exec (gguf_type_cmd e use imf folder base out (upper (strip t))))
            (filter (\<lambda>t. \<not> (startswith (upper (strip t)) ''IQ'' \<and> \<not> use))
               (split_char CHR '','' (remove_spaces p)))
        @ CreateRepo rid
          # (case create_repo_error e rid tok of
               None \<Rightarrow> [UploadFolder folder rid]
             | Some err \<Rightarrow> []))"
  using assms
  by (simp add: quantize_gguf_def Let_def gen_proj gguf_convert_returns gguf_imatrix_returns
      gguf_quantize_types_returns yield_upload_returns yield_upload_world upload_quant_calls
      gguf_quantize_types_calls gguf_imatrix_calls gguf_convert_calls)

lemma all_exit_example: "all_exit example_env"
  by (simp add: all_exit_def example_env_def runs_to_exit_def)

lemma ex_dir_chain:
  "dir_chain ''quantized_models/modelA-GGUF'' = [''quantized_models'', ''quantized_models/modelA-GGUF'']"
  by code_simp

lemma ex_makedirs:
  "makedirs ''quantized_models/modelA-GGUF'' (files quantized_world) = files quantized_world"
  by (simp add: makedirs_def ex_dir_chain add_path_def path_exists_def quantized_world_def)

lemma split_char_no_sep: "s \<in> set (split_char c xs) \<Longrightarrow> c \<notin> set s"
  by (induction xs arbitrary: s) (auto split: if_splits list.splits)

lemma split_char_not_Nil: "split_char c xs \<noteq> []"
  by (induction xs) (auto split: list.splits)

lemma last_segment_no_slash: "CHR ''/'' \<notin> set (last_segment m)"
  using split_char_no_sep [of "last (split_char CHR ''/'' m)" "CHR ''/''" m] split_char_not_Nil [of "CHR ''/''" m]
  by (simp add: last_segment_def)

lemma set_strip: "set (strip s) \<subseteq> set s"
  by (auto simp: strip_def dest!: set_dropWhileD)

lemma lower_char_slash: "lower_char c = CHR ''/'' \<longleftrightarrow> c = CHR ''/''"
  by (auto simp: lower_char_def split: option.splits if_splits)

lemma base_no_slash: "CHR ''/'' \<notin> set (strip (last_segment m))"
  using set_strip last_segment_no_slash by blast

lemma lower_no_slash: "CHR ''/'' \<notin> set s \<Longrightarrow> CHR ''/'' \<notin> set (lower s)"
proof
  assume a: "CHR ''/'' \<notin> set s" and "CHR ''/'' \<in> set (lower s)"
  then obtain x where "x \<in> set s" "lower_char x = CHR ''/''" by (auto simp: lower_def)
  with a show False by (simp add: lower_char_slash)
qed

lemma not_startswith_slash: "CHR ''/'' \<notin> set s \<Longrightarrow> \<not> startswith (s @ CHR ''-'' # r) ''/''"
  by (cases s) (auto simp: startswith_def)

lemma not_startswith_slash_dot: "CHR ''/'' \<notin> set s \<Longrightarrow> \<not> startswith (s @ CHR ''.'' # r) ''/''"
  by (cases s) (auto simp: startswith_def)

lemma gguf_folder:
  "CHR ''/'' \<notin> set base \<Longrightarrow>
   path_join ''quantized_models'' (base @ ''-GGUF'') = ''quantized_models/'' @ base @ ''-GGUF''"
  using not_startswith_slash [of base "''GGUF''"]
  by (simp add: path_join_def endswith_def)

lemma gguf_out_file:
  "CHR ''/'' \<notin> set base \<Longrightarrow>
   path_join (''quantized_models/'' @ base @ ''-GGUF'') (lower base @ ''.bf16.gguf'')
     = ''quantized_models/'' @ base @ ''-GGUF/'' @ lower base @ ''.bf16.gguf''"
  using not_startswith_slash_dot [of "lower base" "''bf16.gguf''"] lower_no_slash [of base]
  by (simp add: path_join_def endswith_def)

lemma gguf_type_file_eq:
  "CHR ''/'' \<notin> set base \<Longrightarrow>
   gguf_type_file use (''quantized_models/'' @ base @ ''-GGUF'') base t
     = ''quantized_models/'' @ base @ ''-GGUF/'' @ lower base @ (if use then ''-i1-'' else ''-'') @ t @ ''.gguf''"
  using not_startswith_slash [of "lower base" "''i1-'' @ t @ ''.gguf''"] 
     not_startswith_slash [of "lower base" "t @ ''.gguf''"] lower_no_slash [of base]
  by (simp add: gguf_type_file_def path_join_def endswith_def)

lemma llama_quantize_cmd:
  "build_llama_cmd e ''llama-quantize'' args = dq @ ''llama_cpp/build/bin/llama-quantize'' @ dq @ join_space args"
  by (simp add: build_llama_cmd_def endswith_def path_join_def startswith_def)

lemma gguf_type_cmd_eq:
  "CHR ''/'' \<notin> set base \<Longrightarrow>
   gguf_type_cmd e use imf (''quantized_models/'' @ base @ ''-GGUF'') base out t =
     dq @ ''llama_cpp/build/bin/llama-quantize'' @ dq
       @ (if use then ''--imatrix '' @ imf @ '' '' else [])
       @ out @ '' ''
       @ ''quantized_models/'' @ base @ ''-GGUF/'' @ lower base @ (if use then ''-i1-'' else ''-'') @ t @ ''.gguf''
       @ '' '' @ t"
  unfolding gguf_type_cmd_def Let_def llama_quantize_cmd
  by (subst gguf_type_file_eq, assumption)+ simp

lemma format_gguf: "format_quant_type ''i1-GGUF'' = ''i1-GGUF''" "format_quant_type ''GGUF'' = ''GGUF''"
  by (simp_all add: format_quant_type_eq startswith_def lower_def lower_char_def upper_def upper_char_def)

lemma gguf_naming_explicit:
  assumes "all_exit e"
  shows "calls (world_of (quantize_gguf e m p tok user use imf cf re k w)) =
    (let base = strip (last_segment m);
         folder = ''quantized_models/'' @ base @ ''-GGUF'';
         out = folder @ ''/'' @ lower base @ ''.bf16.gguf'';
         rid = user @ ''/'' @ base @ (if use then ''-i1-GGUF'' else ''-GGUF'');
         w1 = w\<lparr>files := makedirs folder (files w)\<rparr>;
         w2 = world_of (gguf_convert e (path_join ''models'' base) out w1)
     in calls w
        @ (if path_exists (files w1) out then []
           else [Exec (build_llama_cmd e ''convert_hf_to_gguf.py''
                   [path_join ''models'' base, ''--outtype'', ''bf16'', ''--outfile'', out])])
        @ (if use \<and> (re \<or> \<not> path_exists (files w2) imf)
           then [Exec (imatrix_command e out cf imf k (parse_in_files (in_files k)))] else [])
        @ map (\<lambda>t. Exec (dq @ ''llama_cpp/build/bin/llama-quantize'' @ dq
                 @ (if use then ''--imatrix '' @ imf @ '' '' else [])
                 @ out @ '' ''
                 @ folder @ ''/'' @ lower base @ (if use then ''-i1-'' else ''-'')
                     @ upper (strip t) @ ''.gguf''
                 @ '' '' @ upper (strip t)))
            (filter (\<lambda>t. use \<or> \<not> startswith (upper (strip t)) ''IQ'')
               (split_char CHR '','' (remove_spaces p)))
        @ CreateRepo rid
          # (case create_repo_error e rid tok of
               None \<Rightarrow> [UploadFolder folder rid]
             | Some err \<Rightarrow> []))"
proof -
  let ?base = "strip (last_segment m)"
  have ns: "CHR ''/'' \<notin> set ?base" by (rule base_no_slash)
  have rid: "repo_id_of user ?base (if use then ''i1-GGUF'' else ''GGUF'')
      = user @ ''/'' @ ?base @ (if use then ''-i1-GGUF'' else ''-GGUF'')"
    by (simp add: repo_id_of_def format_gguf)
  have flt: "(\<lambda>t. \<not> (startswith (upper (strip t)) ''IQ'' \<and> \<not> use))
      = (\<lambda>t. use \<or> \<not> startswith (upper (strip t)) ''IQ'')" by auto
  show ?thesis
    unfolding quantize_gguf_calls [OF assms] Let_def gguf_folder [OF ns] gguf_out_file [OF ns]
      gguf_type_cmd_eq [OF ns] rid flt
    by simp
qed

text \<open>
  C10. When every child process exits, the calls of \<open>quantize_gguf\<close> are: the conversion
  (when its output is absent), the importance matrix (when it is computed), one
  \<open>llama-quantize\<close> call for each quant type that is not skipped, and the publication. With
  the importance matrix enabled the output file of type \<open>T\<close> is
  \<open>quantized_models/<base>-GGUF/<lower-cased base>-i1-<T>.gguf\<close> and the destination is
  \<open><username>/<base>-i1-GGUF\<close>; with it disabled they are
  \<open>quantized_models/<base>-GGUF/<lower-cased base>-<T>.gguf\<close> and \<open><username>/<base>-GGUF\<close>.
  The folder is \<open><base>-GGUF\<close> in both cases.
\<close>

theorem gguf_naming_scheme:
  "all_exit e \<longrightarrow>
   calls (world_of (quantize_gguf e m p tok user use imf cf re k w)) =
    (let base = strip (last_segment m);
         folder = ''quantized_models/'' @ base @ ''-GGUF'';
         out = folder @ ''/'' @ lower base @ ''.bf16.gguf'';
         rid = user @ ''/'' @ base @ (if use then ''-i1-GGUF'' else ''-GGUF'');
         w1 = w\<lparr>files := makedirs folder (files w)\<rparr>;
         w2 = world_of (gguf_convert e (path_join ''models'' base) out w1)
     in calls w
        @ (if path_exists (files w1) out then []
           else [Exec (build_llama_cmd e ''convert_hf_to_gguf.py''
                   [path_join ''models'' base, ''--outtype'', ''bf16'', ''--outfile'', out])])
        @ (if use \<and> (re \<or> \<not> path_exists (files w2) imf)
           then [Exec (imatrix_command e out cf imf k (parse_in_files (in_files k)))] else [])
        @ map (\<lambda>t. Exec (dq @ ''llama_cpp/build/bin/llama-quantize'' @ dq
                 @ (if use then ''--imatrix '' @ imf @ '' '' else [])
                 @ out @ '' ''
                 @ folder @ ''/'' @ lower base @ (if use then ''-i1-'' else ''-'')
                     @ upper (strip t) @ ''.gguf''
                 @ '' '' @ upper (strip t)))
            (filter (\<lambda>t. use \<or> \<not> startswith (upper (strip t)) ''IQ'')
               (split_char CHR '','' (remove_spaces p)))
        @ CreateRepo rid
          # (case create_repo_error e rid tok of
               None \<Rightarrow> [UploadFolder folder rid]
             | Some err \<Rightarrow> []))"
  using gguf_naming_explicit [of e m p tok user use imf cf re k w] by blast

lemma ex_base: "strip (last_segment ''org/modelA'') = ''modelA''"
  by (simp add: last_segment_def strip_def is_space_def)

lemma ex_tokens: "split_char CHR '','' (remove_spaces ''Q4_K_M'') = [''Q4_K_M'']"
  by (simp add: remove_spaces_def)

lemma ex_upper: "upper (strip ''Q4_K_M'') = ''Q4_K_M''"
  by (simp add: strip_def is_space_def upper_def upper_char_def)

lemma ex_lower: "lower ''modelA'' = ''modela''"
  by (simp add: lower_def lower_char_def)

theorem gguf_naming_scheme_witness:
  "all_exit example_env
   \<and> calls (world_of (quantize_gguf example_env ''org/modelA'' ''Q4_K_M'' ''token'' ''alice'' True
          ''gguf/imatrix.dat'' ''gguf/calibration_datav3.txt'' False example_knobs quantized_world)) =
        [Exec (dq @ ''llama_cpp/build/bin/llama-quantize'' @ dq
             @ ''--imatrix gguf/imatrix.dat quantized_models/modelA-GGUF/modela.bf16.gguf quantized_models/modelA-GGUF/modela-i1-Q4_K_M.gguf Q4_K_M''),
           CreateRepo ''alice/modelA-i1-GGUF'',
           UploadFolder ''quantized_models/modelA-GGUF'' ''alice/modelA-i1-GGUF'']
   \<and> calls (world_of (quantize_gguf example_env ''org/modelA'' ''Q4_K_M'' ''token'' ''alice'' False
          ''gguf/imatrix.dat'' ''gguf/calibration_datav3.txt'' False example_knobs quantized_world)) =
        [Exec (dq @ ''llama_cpp/build/bin/llama-quantize'' @ dq
             @ ''quantized_models/modelA-GGUF/modela.bf16.gguf quantized_models/modelA-GGUF/modela-Q4_K_M.gguf Q4_K_M''),
           CreateRepo ''alice/modelA-GGUF'',
           UploadFolder ''quantized_models/modelA-GGUF'' ''alice/modelA-GGUF'']"
  using gguf_naming_scheme [of example_env "''org/modelA''" "''Q4_K_M''" "''token''" "''alice''" True
      "''gguf/imatrix.dat''" "''gguf/calibration_datav3.txt''" False example_knobs quantized_world]
    gguf_naming_scheme [of example_env "''org/modelA''" "''Q4_K_M''" "''token''" "''alice''" False
      "''gguf/imatrix.dat''" "''gguf/calibration_datav3.txt''" False example_knobs quantized_world]
    all_exit_example
  unfolding ex_base ex_tokens ex_lower Let_def
  by (simp add: ex_upper startswith_def quantized_world_def path_exists_def
      ex_makedirs [unfolded quantized_world_def, simplified] gguf_convert_skip example_env_def)

text \<open>
  The gating of the loop over the quant types. With the importance matrix disabled and
  every child process exiting, whatever its exit code: the loop returns normally; it
  hands one command line to the Process Runner for each token that, stripped and
  upper-cased, does not begin with \<open>IQ\<close>, in the order of the tokens, and none for any other
  token; and for each token that begins with \<open>IQ\<close> it yields the warning that the type is
  skipped.
\<close>

lemma iq_types_gating:
  "all_exit e \<longrightarrow>
     outcome_of (gguf_quantize_types e p False imf folder base out w) = Return ()
     \<and> calls (world_of (gguf_quantize_types e p False imf folder base out w)) =
         calls w @ map (\<lambda>t. Exec (gguf_type_cmd e False imf folder base out (upper (strip t))))
           (filter (\<lambda>t. \<not> startswith (upper (strip t)) ''IQ'')
              (split_char CHR '','' (remove_spaces p)))
     \<and> (\<forall>t \<in> set (split_char CHR '','' (remove_spaces p)).
           startswith (upper (strip t)) ''IQ'' \<longrightarrow>
           (''[WARN] Skipping '' @ upper (strip t) @ '' quantization because imatrix is not enabled.\<newline>'')
             \<in> set (yielded (gguf_quantize_types e p False imf folder base out w)))"
  using gguf_quantize_types_returns [of e p False imf folder base out w]
    gguf_quantize_types_calls [of e p False imf folder base out w]
    gguf_quantize_types_warns [of e _ p imf folder base out w]
  by auto

lemma iq_types_gating_example:
  "all_exit example_env
   \<and> outcome_of (gguf_quantize_types example_env ''IQ2_XXS, q4_k_m, Q6_K'' False ''gguf/imatrix.dat''
        ''quantized_models/modelA-GGUF'' ''modelA'' ''quantized_models/modelA-GGUF/modela.bf16.gguf''
        quantized_world) = Return ()
   \<and> calls (world_of (gguf_quantize_types example_env ''IQ2_XXS, q4_k_m, Q6_K'' False ''gguf/imatrix.dat''
        ''quantized_models/modelA-GGUF'' ''modelA'' ''quantized_models/modelA-GGUF/modela.bf16.gguf''
        quantized_world)) =
       [Exec (dq @ ''llama_cpp/build/bin/llama-quantize'' @ dq
          @ ''quantized_models/modelA-GGUF/modela.bf16.gguf quantized_models/modelA-GGUF/modela-Q4_K_M.gguf Q4_K_M''),
        Exec (dq @ ''llama_cpp/build/bin/llama-quantize'' @ dq
          @ ''quantized_models/modelA-GGUF/modela.bf16.gguf quantized_models/modelA-GGUF/modela-Q6_K.gguf Q6_K'')]
   \<and> ''[WARN] Skipping IQ2_XXS quantization because imatrix is not enabled.\<newline>''
        \<in> set (yielded (gguf_quantize_types example_env ''IQ2_XXS, q4_k_m, Q6_K'' False ''gguf/imatrix.dat''
        ''quantized_models/modelA-GGUF'' ''modelA'' ''quantized_models/modelA-GGUF/modela.bf16.gguf''
        quantized_world))"
  using iq_types_gating [of example_env "''IQ2_XXS, q4_k_m, Q6_K''" "''gguf/imatrix.dat''"
        "''quantized_models/modelA-GGUF''" "''modelA''" "''quantized_models/modelA-GGUF/modela.bf16.gguf''"
        quantized_world] all_exit_example
  by (simp add: strip_def is_space_def lower_def lower_char_def upper_def upper_char_def
      startswith_def endswith_def remove_spaces_def quantized_world_def gguf_type_cmd_def gguf_type_file_def
      build_llama_cmd_def path_join_def)

lemma shell_word_quoted:
  "CHR 0x22 \<notin> set a \<Longrightarrow> shell_word True (a @ CHR 0x22 # r) = a @ shell_word False r"
  by (induction a) auto

lemma quantize_program:
  "shell_program (gguf_type_cmd e False imf folder base out t) =
     ''llama_cpp/build/bin/llama-quantize''
       @ shell_word False (join_space [out, gguf_type_file False folder base t, t])"
  using shell_word_quoted [of "''llama_cpp/build/bin/llama-quantize''"
      "join_space [out, gguf_type_file False folder base t, t]"]
  by (simp add: shell_program_def gguf_type_cmd_def Let_def llama_quantize_cmd dq_def)

text \<open>
  C6 fails on the code. The gating itself is as the claim says, but the command line that
  the loop builds for a token that is not skipped never starts \<open>llama-quantize\<close>:
  \<open>build_llama_cmd\<close> puts no space between the quoted path of the executable and the first
  argument (line 448; the branch for Python scripts at line 445 has the space), so the
  first word of the command line, which names the program the shell starts, is the path
  of the executable run together with the first argument. For the token \<open>Q4_K_M\<close> of the
  example the shell is asked for the program
  \<open>llama_cpp/build/bin/llama-quantizequantized_models/modelA-GGUF/modela.bf16.gguf\<close>; for
  the conversion script it is asked for the interpreter, as intended.
\<close>

theorem quantize_command_program:
  "shell_program (gguf_type_cmd e False imf folder base out t) =
     ''llama_cpp/build/bin/llama-quantize''
       @ shell_word False (join_space [out, gguf_type_file False folder base t, t])
   \<and> shell_program (gguf_type_cmd example_env False ''gguf/imatrix.dat''
        ''quantized_models/modelA-GGUF'' ''modelA''
        ''quantized_models/modelA-GGUF/modela.bf16.gguf'' ''Q4_K_M'')
     = ''llama_cpp/build/bin/llama-quantizequantized_models/modelA-GGUF/modela.bf16.gguf''
   \<and> calls (world_of (gguf_quantize_types example_env ''IQ2_XXS, Q4_K_M'' False ''gguf/imatrix.dat''
        ''quantized_models/modelA-GGUF'' ''modelA'' ''quantized_models/modelA-GGUF/modela.bf16.gguf''
        quantized_world)) =
       [Exec (gguf_type_cmd example_env False ''gguf/imatrix.dat''
          ''quantized_models/modelA-GGUF'' ''modelA''
          ''quantized_models/modelA-GGUF/modela.bf16.gguf'' ''Q4_K_M'')]
   \<and> shell_program (build_llama_cmd example_env ''convert_hf_to_gguf.py''
        [''models/modelA'', ''--outtype'', ''bf16'', ''--outfile'',
         ''quantized_models/modelA-GGUF/modela.bf16.gguf''])
     = ''/usr/bin/python3''"
proof (intro conjI)
  show "shell_program (gguf_type_cmd e False imf folder base out t) =
     ''llama_cpp/build/bin/llama-quantize''
       @ shell_word False (join_space [out, gguf_type_file False folder base t, t])"
    by (rule quantize_program)
  show "shell_program (gguf_type_cmd example_env False ''gguf/imatrix.dat''
        ''quantized_models/modelA-GGUF'' ''modelA''
        ''quantized_models/modelA-GGUF/modela.bf16.gguf'' ''Q4_K_M'')
     = ''llama_cpp/build/bin/llama-quantizequantized_models/modelA-GGUF/modela.bf16.gguf''"
    by (simp add: shell_program_def gguf_type_cmd_def gguf_type_file_def build_llama_cmd_def
        path_join_def startswith_def endswith_def dq_def lower_def lower_char_def)
  show "calls (world_of (gguf_quantize_types example_env ''IQ2_XXS, Q4_K_M'' False ''gguf/imatrix.dat''
        ''quantized_models/modelA-GGUF'' ''modelA'' ''quantized_models/modelA-GGUF/modela.bf16.gguf''
        quantized_world)) =
       [Exec (gguf_type_cmd example_env False ''gguf/imatrix.dat''
          ''quantized_models/modelA-GGUF'' ''modelA''
          ''quantized_models/modelA-GGUF/modela.bf16.gguf'' ''Q4_K_M'')]"
    using gguf_quantize_types_calls [OF all_exit_example, of "''IQ2_XXS, Q4_K_M''" False
        "''gguf/imatrix.dat''" "''quantized_models/modelA-GGUF''" "''modelA''"
        "''quantized_models/modelA-GGUF/modela.bf16.gguf''" quantized_world]
    by (simp add: strip_def is_space_def upper_def upper_char_def startswith_def
        remove_spaces_def quantized_world_def)
  show "shell_program (build_llama_cmd example_env ''convert_hf_to_gguf.py''
        [''models/modelA'', ''--outtype'', ''bf16'', ''--outfile'',
         ''quantized_models/modelA-GGUF/modela.bf16.gguf''])
     = ''/usr/bin/python3''"
    by (simp add: shell_program_def build_llama_cmd_def path_join_def startswith_def
        endswith_def dq_def example_env_def)
qed





section \<open>Properties of the parameter resolution\<close>



















section \<open>Properties of the orchestrator\<close>

lemma sorted_prefix_last:
  "sorted_wrt prefix (x # xs) \<Longrightarrow> y \<in> set (x # xs) \<Longrightarrow> prefix y (last (x # xs))"
proof (induction xs arbitrary: x y)
  case Nil then show ?case by simp
next
  case (Cons a xs)
  show ?case
  proof (cases "y = x")
    case True
    have "last (a # xs) \<in> set (a # xs)" by (rule last_in_set) simp
    with Cons.prems(1) True show ?thesis by auto
  next
    case False
    with Cons.prems have "y \<in> set (a # xs)" "sorted_wrt prefix (a # xs)" by auto
    with Cons.IH [of a y] show ?thesis by simp
  qed
qed

lemma grows_from_bind:
  assumes m: "grows_from full_log m"
      and k: "\<And>log'. prefix full_log log' \<Longrightarrow> grows_from log' (k log')"
  shows "grows_from full_log (g_bind m k)"
  unfolding grows_from_def
proof (intro allI conjI impI)
  fix w
  from m have s1: "sorted_wrt prefix (full_log # yielded (m w))"
    and r1: "\<And>l. outcome_of (m w) = Return l \<Longrightarrow> prefix (last (full_log # yielded (m w))) l"
    by (auto simp: grows_from_def)
  show "sorted_wrt prefix (full_log # yielded (g_bind m k w))"
  proof (cases "outcome_of (m w)")
    case (Return l)
    let ?w1 = "world_of (m w)"
    have pl: "prefix (last (full_log # yielded (m w))) l" using r1 Return by simp
    have all1: "\<And>y. y \<in> set (full_log # yielded (m w)) \<Longrightarrow> prefix y l"
      using sorted_prefix_last [OF s1] pl prefix_order.trans by blast
    then have "prefix full_log l" by simp
    from k [OF this] have s2: "sorted_wrt prefix (l # yielded (k l ?w1))"
      by (auto simp: grows_from_def)
    have "\<And>y z. y \<in> set (full_log # yielded (m w)) \<Longrightarrow> z \<in> set (yielded (k l ?w1)) \<Longrightarrow> prefix y z"
      using all1 s2 prefix_order.trans by (metis sorted_wrt.simps(2))
    with s1 s2 show ?thesis
      by (auto simp: g_bind_proj Return sorted_wrt_append)
  qed (use s1 in \<open>simp_all add: g_bind_proj\<close>)
next
  fix w log'
  assume ret: "outcome_of (g_bind m k w) = Return log'"
  from m have s1: "sorted_wrt prefix (full_log # yielded (m w))"
    and r1: "\<And>l. outcome_of (m w) = Return l \<Longrightarrow> prefix (last (full_log # yielded (m w))) l"
    by (auto simp: grows_from_def)
  from ret obtain l where l: "outcome_of (m w) = Return l"
    by (cases "outcome_of (m w)") (auto simp: g_bind_proj)
  let ?w1 = "world_of (m w)"
  have pl: "prefix (last (full_log # yielded (m w))) l" using r1 l by simp
  have "prefix full_log l"
    using sorted_prefix_last [OF s1, of full_log] pl prefix_order.trans by auto
  from k [OF this] have s2: "sorted_wrt prefix (l # yielded (k l ?w1))"
    and r2: "\<And>l'. outcome_of (k l ?w1) = Return l' \<Longrightarrow> prefix (last (l # yielded (k l ?w1))) l'"
    by (auto simp: grows_from_def)
  from ret l have ret2: "outcome_of (k l ?w1) = Return log'" by (simp add: g_bind_proj)
  show "prefix (last (full_log # yielded (g_bind m k w))) log'"
  proof (cases "yielded (k l ?w1) = []")
    case True
    with r2 [OF ret2] have "prefix l log'" by simp
    with pl True l show ?thesis using prefix_order.trans by (auto simp: g_bind_proj)
  next
    case False
    with r2 [OF ret2] l show ?thesis by (simp add: g_bind_proj)
  qed
qed

lemma grows_from_return: "prefix full_log log' \<Longrightarrow> grows_from full_log (g_return log')"
  by (simp add: grows_from_def g_return_def)

lemma grows_from_yield_log: "prefix full_log log' \<Longrightarrow> grows_from full_log (yield_log log')"
  by (simp add: grows_from_def yield_log_def)

lemma accumulate_sorted: "sorted_wrt prefix (full_log # accumulate full_log ls)"
proof (induction ls arbitrary: full_log)
  case Nil then show ?case by simp
next
  case (Cons l ls)
  have s: "sorted_wrt prefix ((full_log @ l) # accumulate (full_log @ l) ls)" by (rule Cons.IH)
  then have "\<And>y. y \<in> set (accumulate (full_log @ l) ls) \<Longrightarrow> prefix full_log y"
    using prefix_order.trans [of full_log "full_log @ l"] by auto
  with s show ?case by auto
qed

lemma accumulate_last: "last (full_log # accumulate full_log ls) = full_log @ concat ls"
  by (induction ls arbitrary: full_log) auto

lemma grows_from_consume: "grows_from full_log (consume g full_log)"
  unfolding grows_from_def
proof (intro allI conjI impI)
  fix w
  show "sorted_wrt prefix (full_log # yielded (consume g full_log w))"
    using accumulate_sorted [of full_log] by (simp add: consume_def split: prod.splits)
  fix log' assume "outcome_of (consume g full_log w) = Return log'"
  then have "log' = full_log @ concat (yielded (g w))"
    by (cases "g w") (auto simp: consume_def split: outcome.splits)
  moreover have "yielded (consume g full_log w) = accumulate full_log (yielded (g w))"
    by (cases "g w") (simp add: consume_def)
  ultimately show "prefix (last (full_log # yielded (consume g full_log w))) log'"
    by (simp only: accumulate_last prefix_order.refl)
qed

lemma grows_from_fold:
  "(\<And>x l. grows_from l (body x l)) \<Longrightarrow> grows_from full_log (g_fold xs body full_log)"
proof (induction xs arbitrary: full_log)
  case Nil then show ?case by (simp add: grows_from_return)
next
  case (Cons x xs)
  show ?case
    by (simp, rule grows_from_bind) (use Cons in auto)
qed

lemma grows_from_mono: "prefix l0 l1 \<Longrightarrow> grows_from l1 g \<Longrightarrow> grows_from l0 g"
  unfolding grows_from_def
  using prefix_order.trans by (metis (no_types, lifting) last.simps list.set_intros(1) sorted_wrt.simps(2) set_ConsD)

lemma grows_from_cases:
  assumes "\<And>w. g w = (if c w then g1 w else g2 w)" and "grows_from full_log g1"
    and "grows_from full_log g2"
  shows "grows_from full_log g"
  using assms by (simp add: grows_from_def)

lemma grows_from_try_return:
  assumes "\<And>w. yielded (m w) = []" and "prefix full_log l1" and "\<And>err. prefix full_log (l2 err)"
  shows "grows_from full_log (g_try (g_then m (g_return l1)) (\<lambda>err. g_return (l2 err)))"
  unfolding grows_from_def
proof (intro allI)
  fix w
  obtain r w1 where mw: "m w = ([], r, w1)"
    using assms(1) [of w] by (cases "m w") simp
  show "sorted_wrt prefix
          (full_log # yielded (g_try (g_then m (g_return l1)) (\<lambda>err. g_return (l2 err)) w))
        \<and> (\<forall>log'. outcome_of (g_try (g_then m (g_return l1)) (\<lambda>err. g_return (l2 err)) w)
               = Return log' \<longrightarrow>
             prefix (last (full_log
               # yielded (g_try (g_then m (g_return l1)) (\<lambda>err. g_return (l2 err)) w))) log')"
    using assms(2,3)
    by (cases r) (auto simp: g_try_def g_then_def g_bind_def g_return_def mw)
qed

lemma shutil_rmtree_yields: "yielded (shutil_rmtree e p w) = []"
  by (simp add: shutil_rmtree_def Let_def split: option.splits prod.splits)

lemma grows_from_bind_silent:
  assumes "\<And>w. yielded (m w) = []" and "\<And>a. grows_from full_log (k a)"
  shows "grows_from full_log (g_bind m k)"
  unfolding grows_from_def
proof (intro allI)
  fix w
  obtain r w1 where mw: "m w = ([], r, w1)"
    using assms(1) [of w] by (cases "m w") simp
  show "sorted_wrt prefix (full_log # yielded (g_bind m k w))
        \<and> (\<forall>log'. outcome_of (g_bind m k w) = Return log' \<longrightarrow>
             prefix (last (full_log # yielded (g_bind m k w))) log')"
  proof (cases r)
    case (Return a)
    with assms(2) [of a] mw show ?thesis
      by (simp add: grows_from_def g_bind_proj)
  qed (simp_all add: g_bind_proj mw)
qed

lemma os_listdir_yields: "yielded (os_listdir e d w) = []"
  by (simp add: os_listdir_def split: option.splits)

lemma grows_delete_original: "grows_from full_log (delete_original_folder e base full_log)"
proof (rule grows_from_cases [where c = "\<lambda>w. path_exists (files w) (path_join ''models'' base)"])
  show "delete_original_folder e base full_log w =
      (if path_exists (files w) (path_join ''models'' base)
       then g_try
          (g_then (shutil_rmtree e (path_join ''models'' base))
             (g_return (full_log @ ''[INFO] Deleted original model folder: '' @ path_join ''models'' base @ ''\<newline>'')))
          (\<lambda>err. g_return (full_log @ ''[ERROR] Could not delete original model folder ''
                     @ path_join ''models'' base @ '': '' @ err @ ''\<newline>'')) w
       else g_return full_log w)" for w
    by (simp add: delete_original_folder_def Let_def)
  show "grows_from full_log (g_try
          (g_then (shutil_rmtree e (path_join ''models'' base))
             (g_return (full_log @ ''[INFO] Deleted original model folder: '' @ path_join ''models'' base @ ''\<newline>'')))
          (\<lambda>err. g_return (full_log @ ''[ERROR] Could not delete original model folder ''
                     @ path_join ''models'' base @ '': '' @ err @ ''\<newline>'')))"
    by (rule grows_from_try_return) (simp_all add: shutil_rmtree_yields)
  show "grows_from full_log (g_return full_log)" by (simp add: grows_from_return)
qed

lemma grows_delete_quantized_folder:
  "grows_from full_log (delete_quantized_folder e base qd folder full_log)"
  unfolding delete_quantized_folder_def Let_def
  by (auto intro!: grows_from_try_return grows_from_return simp: shutil_rmtree_yields)

lemma grows_delete_quantized: "grows_from full_log (delete_quantized_folders e base full_log)"
proof (rule grows_from_cases [where c = "\<lambda>w. path_exists (files w) ''quantized_models''"])
  show "delete_quantized_folders e base full_log w =
      (if path_exists (files w) ''quantized_models''
       then g_bind (os_listdir e ''quantized_models'') (\<lambda>folders.
              g_fold folders (delete_quantized_folder e base ''quantized_models'') full_log) w
       else g_return full_log w)" for w
    by (simp add: delete_quantized_folders_def Let_def)
  show "grows_from full_log (g_bind (os_listdir e ''quantized_models'') (\<lambda>folders.
          g_fold folders (delete_quantized_folder e base ''quantized_models'') full_log))"
    by (rule grows_from_bind_silent)
       (simp_all add: os_listdir_yields grows_from_fold grows_delete_quantized_folder)
  show "grows_from full_log (g_return full_log)" by (simp add: grows_from_return)
qed

lemma grows_cleanup: "grows_from full_log (cleanup e m d_o d_q full_log)"
  unfolding cleanup_def Let_def
  by (rule grows_from_bind)
     (auto intro: grows_delete_original grows_delete_quantized grows_from_return)

lemma grows_run_method: "grows_from full_log (run_method e a m mp full_log)"
  unfolding run_method_def
  by (cases mp)
     (auto intro!: grows_from_bind grows_from_yield_log grows_from_consume)

lemma grows_process_model: "grows_from full_log (process_model e a m full_log)"
proof -
  let ?l0 = "full_log @ ''\<newline>=== Processing model: '' @ m @ '' ===\<newline>''"
  have "grows_from ?l0 (process_model e a m full_log)"
    unfolding process_model_def
    by (rule grows_from_bind)
       (auto intro!: grows_from_bind grows_from_yield_log grows_from_consume grows_from_fold
          grows_run_method grows_cleanup)
  then show ?thesis by (rule grows_from_mono [rotated]) simp
qed

lemma grows_quant_tavern_ui:
  "grows_from ''=== Starting SpongeQuant Quantization Process ===\<newline>'' (quant_tavern_ui e a)"
  unfolding quant_tavern_ui_def Let_def
  by (rule grows_from_bind)
     (auto intro!: grows_from_fold grows_process_model grows_from_yield_log)

lemma transcripts_sorted: "sorted_wrt prefix (yielded (quant_tavern_ui e a w))"
  using grows_quant_tavern_ui [of e a] by (simp add: grows_from_def)

text \<open>
  C7. In every run of the orchestrator, in every environment and from every world, also in
  a run that an exception ends: the transcript yielded at step \<open>k + 1\<close> has the transcript
  yielded at step \<open>k\<close> as a prefix.
\<close>

theorem transcript_monotone:
  "Suc k < length (yielded (quant_tavern_ui e a w)) \<longrightarrow>
   prefix (yielded (quant_tavern_ui e a w) ! k) (yielded (quant_tavern_ui e a w) ! Suc k)"
  using transcripts_sorted [of e a w] sorted_wrt_nth_less [of prefix "yielded (quant_tavern_ui e a w)" k "Suc k"]
  by simp

subsection \<open>The example run\<close>

lemma ex_models: "model_list_of ''org/modelA\<newline>org/modelB'' = [''org/modelA'', ''org/modelB'']"
  by (simp add: model_list_of_def splitlines_def is_linebreak_def strip_def is_space_def)

lemma ex_selected: "selected_methods example_args = [(''GPTQ'', ''x,128,0.1''), (''AWQ'', ''4, 128, GEMM, True'')]"
  by (simp add: selected_methods_def example_args_def)

lemma ex_download:
  "download_model example_env ''org/modelA'' ''token'' downloaded_world =
     ([''=== Downloading Model ===\<newline>'',
       ''[INFO] Model ID: org/modelA\<newline>'',
       ''[INFO] Target directory: models/modelA\<newline>'',
       ''[INFO] Model org/modelA is already fully downloaded at models/modelA. Skipping download.\<newline>''],
      Return (), downloaded_world)"
  by (simp add: download_model_def Let_def g_yield_then g_then_return_unit last_segment_def
      path_join_def startswith_def endswith_def downloaded_world_def path_exists_def
      is_model_fully_downloaded_def example_env_def g_yield_def)

lemma ex_gptq:
  "quantize_gptq example_env ''org/modelA'' ''x,128,0.1'' ''token'' ''alice'' w =
     ([''=== GPTQ Quantization ===\<newline>''],
      Raise (''invalid literal for int() with base 10: '' @ sq @ ''x'' @ sq), w)"
  by (simp add: quantize_gptq_def example_env_def g_yield_then gptq_params_def
       strip_def is_space_def g_bind_def py_int_def decimal_int_def startswith_def is_digit_def g_raise_def)

lemma ex_args_fields:
  "model_ids example_args = ''org/modelA\<newline>org/modelB''"
  "hf_token example_args = ''token''"
  "username example_args = ''alice''"
  by (simp_all add: example_args_def)

lemma ex_run_method:
  "run_method example_env example_args ''org/modelA'' (''GPTQ'', ''x,128,0.1'') full_log w =
     ([full_log @ ''[INFO] Running GPTQ quantization...\<newline>'',
       full_log @ ''[INFO] Running GPTQ quantization...\<newline>'' @ ''=== GPTQ Quantization ===\<newline>''],
      Raise (''invalid literal for int() with base 10: '' @ sq @ ''x'' @ sq), w)"
  by (simp add: run_method_def g_bind_def yield_log_def consume_def ex_args_fields ex_gptq)

lemma ex_process_model:
  "process_model example_env example_args ''org/modelA'' full_log downloaded_world =
     (accumulate (full_log @ ''\<newline>=== Processing model: org/modelA ===\<newline>'')
        [''=== Downloading Model ===\<newline>'',
         ''[INFO] Model ID: org/modelA\<newline>'',
         ''[INFO] Target directory: models/modelA\<newline>'',
         ''[INFO] Model org/modelA is already fully downloaded at models/modelA. Skipping download.\<newline>'']
      @ [full_log @ ''\<newline>=== Processing model: org/modelA ===\<newline>''
           @ ''=== Downloading Model ===\<newline>''
           @ ''[INFO] Model ID: org/modelA\<newline>''
           @ ''[INFO] Target directory: models/modelA\<newline>''
           @ ''[INFO] Model org/modelA is already fully downloaded at models/modelA. Skipping download.\<newline>''
           @ ''[INFO] Running GPTQ quantization...\<newline>'',
         full_log @ ''\<newline>=== Processing model: org/modelA ===\<newline>''
           @ ''=== Downloading Model ===\<newline>''
           @ ''[INFO] Model ID: org/modelA\<newline>''
           @ ''[INFO] Target directory: models/modelA\<newline>''
           @ ''[INFO] Model org/modelA is already fully downloaded at models/modelA. Skipping download.\<newline>''
           @ ''[INFO] Running GPTQ quantization...\<newline>''
           @ ''=== GPTQ Quantization ===\<newline>''],
      Raise (''invalid literal for int() with base 10: '' @ sq @ ''x'' @ sq), downloaded_world)"
  unfolding process_model_def ex_selected ex_args_fields
  by (simp add: g_bind_def consume_def ex_download ex_run_method del: accumulate.simps)

lemma ex_run:
  "quant_tavern_ui example_env example_args downloaded_world =
     (accumulate (''=== Starting SpongeQuant Quantization Process ===\<newline>''
                    @ ''\<newline>=== Processing model: org/modelA ===\<newline>'')
        [''=== Downloading Model ===\<newline>'',
         ''[INFO] Model ID: org/modelA\<newline>'',
         ''[INFO] Target directory: models/modelA\<newline>'',
         ''[INFO] Model org/modelA is already fully downloaded at models/modelA. Skipping download.\<newline>'']
      @ [''=== Starting SpongeQuant Quantization Process ===\<newline>''
           @ ''\<newline>=== Processing model: org/modelA ===\<newline>''
           @ ''=== Downloading Model ===\<newline>''
           @ ''[INFO] Model ID: org/modelA\<newline>''
           @ ''[INFO] Target directory: models/modelA\<newline>''
           @ ''[INFO] Model org/modelA is already fully downloaded at models/modelA. Skipping download.\<newline>''
           @ ''[INFO] Running GPTQ quantization...\<newline>'',
         ''=== Starting SpongeQuant Quantization Process ===\<newline>''
           @ ''\<newline>=== Processing model: org/modelA ===\<newline>''
           @ ''=== Downloading Model ===\<newline>''
           @ ''[INFO] Model ID: org/modelA\<newline>''
           @ ''[INFO] Target directory: models/modelA\<newline>''
           @ ''[INFO] Model org/modelA is already fully downloaded at models/modelA. Skipping download.\<newline>''
           @ ''[INFO] Running GPTQ quantization...\<newline>''
           @ ''=== GPTQ Quantization ===\<newline>''],
      Raise (''invalid literal for int() with base 10: '' @ sq @ ''x'' @ sq), downloaded_world)"
  unfolding quant_tavern_ui_def Let_def ex_args_fields ex_models
  by (simp add: g_bind_def ex_process_model del: accumulate.simps)

theorem transcript_monotone_witness:
  "length (yielded (quant_tavern_ui example_env example_args downloaded_world)) = 6
   \<and> prefix (yielded (quant_tavern_ui example_env example_args downloaded_world) ! 4)
        (yielded (quant_tavern_ui example_env example_args downloaded_world) ! 5)"
  using transcript_monotone [of 4 example_env example_args downloaded_world]
  by (simp add: ex_run)

lemma ex_awq:
  "quantize_awq example_env ''org/modelA'' ''x,128,GEMM,True'' ''token'' ''alice'' w =
     ([''=== AWQ Quantization ===\<newline>'',
       ''[ERROR] Error during AWQ quantization: invalid literal for int() with base 10: ''
         @ sq @ ''x'' @ sq @ ''\<newline>''],
      Return (), w)"
  by (simp add: quantize_awq_def example_env_def g_yield_then awq_params_def g_try_def
      strip_def is_space_def g_bind_def py_int_def decimal_int_def startswith_def is_digit_def
      g_raise_def g_yield_def)

text \<open>
  C1 fails on the code. With GPTQ and AWQ selected for the models \<open>org/modelA\<close> and
  \<open>org/modelB\<close>, and \<open>x,128,0.1\<close> as the parameters of GPTQ, \<open>int("x")\<close> raises in
  \<open>quantize_gptq\<close>, which has no handler, and the exception ends \<open>quant_tavern_ui\<close>: the last
  transcript stops after the header of GPTQ, AWQ is not run for the model, and the second
  model is not processed (no download is attempted for it). The same parameter error in
  \<open>quantize_awq\<close>, whose body is inside \<open>try\<close>, becomes one line of the transcript.
\<close>

theorem gptq_parse_failure_ends_batch:
  "outcome_of (quant_tavern_ui example_env example_args downloaded_world) =
     Raise (''invalid literal for int() with base 10: '' @ sq @ ''x'' @ sq)
   \<and> calls (world_of (quant_tavern_ui example_env example_args downloaded_world)) = []
   \<and> last (yielded (quant_tavern_ui example_env example_args downloaded_world)) =
       ''=== Starting SpongeQuant Quantization Process ===\<newline>''
         @ ''\<newline>=== Processing model: org/modelA ===\<newline>''
         @ ''=== Downloading Model ===\<newline>''
         @ ''[INFO] Model ID: org/modelA\<newline>''
         @ ''[INFO] Target directory: models/modelA\<newline>''
         @ ''[INFO] Model org/modelA is already fully downloaded at models/modelA. Skipping download.\<newline>''
         @ ''[INFO] Running GPTQ quantization...\<newline>''
         @ ''=== GPTQ Quantization ===\<newline>''
   \<and> selected_methods example_args = [(''GPTQ'', ''x,128,0.1''), (''AWQ'', ''4, 128, GEMM, True'')]
   \<and> model_list_of (model_ids example_args) = [''org/modelA'', ''org/modelB'']
   \<and> quantize_awq example_env ''org/modelA'' ''x,128,GEMM,True'' ''token'' ''alice'' empty_world =
       ([''=== AWQ Quantization ===\<newline>'',
         ''[ERROR] Error during AWQ quantization: invalid literal for int() with base 10: ''
           @ sq @ ''x'' @ sq @ ''\<newline>''],
        Return (), empty_world)"
proof -
  have c: "calls downloaded_world = []" by (simp add: downloaded_world_def)
  show ?thesis
    by (simp add: ex_run ex_selected ex_models ex_args_fields ex_awq c)
qed

section \<open>Properties of the cleanup\<close>

subsection \<open>One deletion\<close>













subsection \<open>The loop over the listing\<close>








subsection \<open>The two trees are apart\<close>





subsection \<open>The two blocks\<close>













subsection \<open>The cleanup\<close>












subsection \<open>The example\<close>









end
